theory Spec2Isabelle
  imports Complex_Main "HOL-Library.Sublist"
begin

section \<open>The single-pass volume mapper (vtkSinglePassVolumeMapper.cxx)\<close>

text \<open>
  A shallow embedding of \<^verbatim>\<open>Rendering/Volume2/vtkSinglePassVolumeMapper.cxx\<close>.

  \<^item> A C++ \<^verbatim>\<open>double\<close> is a \<^typ>\<open>real\<close>: rounding is not modelled. A division whose
    divisor can be zero yields an infinity or a NaN in C++ and no real number, so its
    result is a \<^typ>\<open>real option\<close> with \<open>None\<close> for "not a finite number".
  \<^item> A C++ \<^verbatim>\<open>int\<close> is an \<^typ>\<open>int\<close>; the extents of an image are far from the limits
    of the 32-bit type and signed overflow (undefined in C++) is not modelled.
  \<^item> A fixed-size C array (\<^verbatim>\<open>double Bounds[6]\<close>) is a function from the index.
  \<^item> Everything the program does to the outside (OpenGL calls, diagnostics, events) is
    appended to one list of events, in program order.
  \<^item> \<^verbatim>\<open>assert\<close> aborts the process unless the build defines \<^verbatim>\<open>NDEBUG\<close>; a null
    pointer that is dereferenced aborts as well. Both are outcomes of the model.
\<close>

subsection \<open>Constants of vtkType.h, vtkVolumeMapper.h and OpenGL\<close>

text \<open>
  The scalar type codes the source names in its two \<^verbatim>\<open>switch\<close> statements;
  \<open>VTK_OTHER\<close> stands for every other code (it reaches \<^verbatim>\<open>default:\<close>).
\<close>

datatype vtk_type =
    VTK_BIT | VTK_CHAR | VTK_SIGNED_CHAR | VTK_UNSIGNED_CHAR
  | VTK_SHORT | VTK_UNSIGNED_SHORT | VTK_INT | VTK_UNSIGNED_INT
  | VTK_LONG | VTK_UNSIGNED_LONG | VTK_FLOAT | VTK_DOUBLE
  | VTK_ID_TYPE | VTK_STRING | VTK_LONG_LONG | VTK_UNSIGNED_LONG_LONG
  | VTK___INT64 | VTK_UNSIGNED___INT64 | VTK_OTHER

text \<open>
  Modelled from the spec: vtkType.h is not among the sources. The spec names the
  supported integer types by their widths (8, 16 and 32 bits, signed and unsigned);
  these are the largest values of those types.
\<close>

definition VTK_UNSIGNED_CHAR_MAX :: real where "VTK_UNSIGNED_CHAR_MAX = 255"
definition VTK_SIGNED_CHAR_MAX :: real where "VTK_SIGNED_CHAR_MAX = 127"
definition VTK_UNSIGNED_SHORT_MAX :: real where "VTK_UNSIGNED_SHORT_MAX = 65535"
definition VTK_SHORT_MAX :: real where "VTK_SHORT_MAX = 32767"
definition VTK_UNSIGNED_INT_MAX :: real where "VTK_UNSIGNED_INT_MAX = 4294967295"
definition VTK_INT_MAX :: real where "VTK_INT_MAX = 2147483647"

text \<open>
  The blend modes of vtkVolumeMapper that ValidateRender names; \<open>OTHER_BLEND\<close> is any
  other value of the integer member.
\<close>

datatype blend_mode =
  COMPOSITE_BLEND | MAXIMUM_INTENSITY_BLEND | MINIMUM_INTENSITY_BLEND | ADDITIVE_BLEND | OTHER_BLEND

text \<open>The OpenGL enumerants LoadVolume chooses from; \<open>GL_0\<close> is the initial value 0.\<close>

datatype gl_enum =
    GL_0 | GL_RGBA16 | GL_RGBA | GL_RED | GL_INTENSITY8 | GL_INTENSITY16 | INTENSITY16F_ARB
  | GL_UNSIGNED_BYTE | GL_BYTE | GL_UNSIGNED_SHORT | GL_SHORT | GL_UNSIGNED_INT | GL_INT | GL_FLOAT

definition GL_NO_ERROR :: nat where "GL_NO_ERROR = 0"

definition VTK_LINEAR_INTERPOLATION :: int where "VTK_LINEAR_INTERPOLATION = 1"

subsection \<open>The objects the mapper reads\<close>

record vtkDataArray =
  DataType :: vtk_type
  NumberOfComponents :: int
  Range :: "nat \<Rightarrow> real"

text \<open>
  The image data. \<open>Scalars\<close> and \<open>ScalarsAssociation\<close> are what
  \<^verbatim>\<open>vtkAbstractMapper::GetScalars\<close> finds on this input for the mapper's scalar mode:
  the array (or null) and the flag it stores through its last argument
  (0 point data, 1 cell data, 2 field data).
\<close>

record vtkImageData =
  Extent :: "nat \<Rightarrow> int"
  Spacing :: "nat \<Rightarrow> real"
  Origin :: "nat \<Rightarrow> real"
  MTime :: nat
  Scalars :: "vtkDataArray option"
  ScalarsAssociation :: int

definition GetScalars :: "vtkImageData \<Rightarrow> vtkDataArray option \<times> int" where
  "GetScalars input = (Scalars input, ScalarsAssociation input)"

text \<open>
  Modelled from the spec: vtkColorTransferFunction and vtkPiecewiseFunction are not among
  the sources. The spec describes a transfer function as an ordered sequence of control
  points to which default points are appended: a list, \<^verbatim>\<open>GetSize\<close> its length,
  \<^verbatim>\<open>AddRGBPoint\<close> and \<^verbatim>\<open>AddPoint\<close> adding one point at the end.
\<close>

type_synonym rgb_point = "real \<times> real \<times> real \<times> real"
type_synonym opacity_point = "real \<times> real"

definition GetSize :: "'a list \<Rightarrow> int" where
  "GetSize f = int (length f)"

definition AddRGBPoint :: "real \<Rightarrow> real \<Rightarrow> real \<Rightarrow> real \<Rightarrow> rgb_point list \<Rightarrow> rgb_point list" where
  "AddRGBPoint x r g b f = f @ [(x, r, g, b)]"

definition AddPoint :: "real \<Rightarrow> real \<Rightarrow> opacity_point list \<Rightarrow> opacity_point list" where
  "AddPoint x y f = f @ [(x, y)]"

record vtkVolumeProperty =
  RGBTransferFunction :: "rgb_point list"
  ScalarOpacity :: "opacity_point list"
  IndependentComponents :: int
  InterpolationType :: int
  ScalarOpacityUnitDistance :: real
  Shade :: int

record vtkVolume =
  Property :: vtkVolumeProperty

record vtkRenderer =
  CameraPosition :: "nat \<Rightarrow> real"

subsection \<open>Events, the process state and outcomes\<close>

datatype event =
    GL string
  | glTexImage3D gl_enum int int int gl_enum gl_enum
  | glTexImage2D int "real list option"
  | glBufferData_vertices "real list"
  | glBufferData_indices "nat list"
  | glUniform1f string "real option"
  | glUniform3f string "real option" "real option" "real option"
  | glUniform1i string int
  | glUniform3fv string real real real
  | glUniformMatrix4fv string
  | glDrawElements nat
  | cerr string
  | vtkErrorMacro string
  | InvokeEvent string
  | MakeCurrent
  | Volume_Update
  | InputAlgorithm_Update
  | Timer string
  | RGBTable_Update "rgb_point list" real real bool
  | OpacityTable_Update nat "opacity_point list" blend_mode real real real real bool
  | RGBTable_Bind
  | OpacityTable_Bind nat

text \<open>
  The members of \<^verbatim>\<open>vtkSinglePassVolumeMapper::vtkInternal\<close> the methods below read or
  write. The constructor leaves \<open>ScalarsRange\<close>, \<open>Bounds\<close>, \<open>StepSize\<close>, \<open>Scale\<close>,
  \<open>NoiseTextureSize\<close> and \<open>BlendMode\<close> uninitialised.
\<close>

record vtkInternal =
  Initialized :: bool
  CellFlag :: int
  TextureSize :: "nat \<Rightarrow> int"
  BlendMode :: blend_mode
  ScalarsRange :: "nat \<Rightarrow> real"
  Bounds :: "nat \<Rightarrow> real"
  Extents :: "nat \<Rightarrow> int"
  StepSize :: "nat \<Rightarrow> real option"
  CellScale :: "nat \<Rightarrow> real"
  Scale :: "real option"
  NoiseTextureData :: "real list option"
  NoiseTextureSize :: int
  VolumeBuildTime :: nat
  ElapsedDrawTime :: real

text \<open>
  The members of the mapper itself that the source reads through \<^verbatim>\<open>this\<close>:
  \<open>Mapper_Bounds\<close> is \<^verbatim>\<open>this->Bounds\<close> of the mapper (inherited; another array than
  \<^verbatim>\<open>this->Implementation->Bounds\<close>), \<open>Mapper_BlendMode\<close> is \<^verbatim>\<open>this->BlendMode\<close>, and
  \<open>Input\<close> is what \<^verbatim>\<open>this->GetInput()\<close> returns.
\<close>

record vtkSinglePassVolumeMapper =
  Mapper_Bounds :: "nat \<Rightarrow> real"
  Mapper_BlendMode :: blend_mode
  SampleDistance :: real
  Input :: "vtkImageData option"

text \<open>
  The state of the process: the events so far, the global counter behind
  \<^verbatim>\<open>vtkTimeStamp::Modified\<close>, and the object \<^verbatim>\<open>this->Implementation\<close> points to.
\<close>

record sys =
  events :: "event list"
  GlobalTime :: nat
  Implementation :: vtkInternal

text \<open>
  What the program cannot decide: the build (\<open>NDEBUG\<close>), the OpenGL driver (the error
  code \<^verbatim>\<open>glGetError\<close> reports after the calls so far, the largest texture size, whether
  \<^verbatim>\<open>GL_ARB_texture_float\<close> is supported), the noise function
  (\<^verbatim>\<open>vtkPerlinNoise::EvaluateFunction\<close> at \<open>(i, j, 0)\<close> for a frequency and an amplitude)
  and the timer.
\<close>

record platform =
  NDEBUG :: bool
  glGetError :: "event list \<Rightarrow> nat"
  GL_MAX_TEXTURE_SIZE :: int
  GL_ARB_texture_float :: bool
  EvaluateFunction :: "int \<Rightarrow> real \<Rightarrow> int \<Rightarrow> int \<Rightarrow> real"
  GetElapsedTime :: real

datatype failure = AssertionFailed | NullPointerDereference

datatype 'a outcome = Done 'a sys | Aborted failure sys

fun andThen :: "'a outcome \<Rightarrow> ('a \<Rightarrow> sys \<Rightarrow> 'b outcome) \<Rightarrow> 'b outcome" where
  "andThen (Done x s) f = f x s"
| "andThen (Aborted e s) f = Aborted e s"

fun final :: "'a outcome \<Rightarrow> sys" where
  "final (Done x s) = s"
| "final (Aborted e s) = s"

fun returned :: "'a outcome \<Rightarrow> 'a option" where
  "returned (Done x s) = Some x"
| "returned (Aborted e s) = None"

definition emit :: "event \<Rightarrow> sys \<Rightarrow> sys" where
  "emit e s = s\<lparr>events := events s @ [e]\<rparr>"

definition deref :: "'a option \<Rightarrow> sys \<Rightarrow> 'a outcome" where
  "deref p s = (case p of None \<Rightarrow> Aborted NullPointerDereference s | Some x \<Rightarrow> Done x s)"

definition assert_that :: "platform \<Rightarrow> bool \<Rightarrow> sys \<Rightarrow> unit outcome" where
  "assert_that p c s = (if NDEBUG p then Done () s else if c then Done () s else Aborted AssertionFailed s)"

text \<open>\<^verbatim>\<open>#define GL_CHECK_ERRORS { assert(glGetError() == GL_NO_ERROR); }\<close>\<close>

definition GL_CHECK_ERRORS :: "platform \<Rightarrow> sys \<Rightarrow> unit outcome" where
  "GL_CHECK_ERRORS p s = assert_that p (glGetError p (events s) = GL_NO_ERROR) s"

text \<open>The texts of the diagnostics, as the source writes them.\<close>

definition msg_VTK_CHAR :: string where
  "msg_VTK_CHAR = ''scalar of type VTK_CHAR is not supported because this type is platform dependent. Use VTK_SIGNED_CHAR or VTK_UNSIGNED_CHAR instead.''"

definition msg_VTK_BIT :: string where
  "msg_VTK_BIT = ''scalar of type VTK_BIT is not supported by this mapper.''"

definition msg_VTK_ID_TYPE :: string where
  "msg_VTK_ID_TYPE = ''scalar of type VTK_ID_TYPE is not supported by this mapper.''"

definition msg_VTK_STRING :: string where
  "msg_VTK_STRING = ''scalar of type VTK_STRING is not supported by this mapper.''"

definition msg_renderer :: string where
  "msg_renderer = ''Renderer cannot be null.''"

definition msg_volume :: string where
  "msg_volume = ''Volume cannot be null.''"

definition msg_input :: string where
  "msg_input = ''Input is NULL but is required''"

definition msg_no_scalars :: string where
  "msg_no_scalars = ''No scalars found on input.''"

definition msg_field_scalars :: string where
  "msg_field_scalars = ''Only point or cell scalar support - found field scalars instead.''"

definition msg_blend_mode :: string where
  "msg_blend_mode = ''Selected blend mode not supported. Only Composite, MIP, MinIP and additive modes are supported by the current implementation.''"

definition msg_components :: string where
  "msg_components = ''Only one component scalars, or four component with non-independent components, are supported by this mapper.''"

definition msg_unsigned_char :: string where
  "msg_unsigned_char = ''Only unsigned char is supported for 4-component scalars!''"

definition msg_additive :: string where
  "msg_additive = ''Additive mode only works with 1-component scalars!''"

definition msg_scalar_type :: string where
  "msg_scalar_type = ''Scalar type VTK_UNSIGNED_LONG_LONG not supported''"

definition msg_multi_component :: string where
  "msg_multi_component = ''SinglePass volume mapper does not handle multi-component scalars''"

definition msg_invalid_volume :: string where
  "msg_invalid_volume = ''Invalid volume''"

subsection \<open>ValidateRender\<close>

text \<open>The \<^verbatim>\<open>switch\<close> on the scalar type (lines 850-876).\<close>

definition ValidateRender_type :: "int \<Rightarrow> vtk_type \<Rightarrow> sys \<Rightarrow> int outcome" where
  "ValidateRender_type goodSoFar t s =
    (case t of
       VTK_CHAR \<Rightarrow> Done 0 (emit (vtkErrorMacro msg_VTK_CHAR) s)
     | VTK_BIT \<Rightarrow> Done 0 (emit (vtkErrorMacro msg_VTK_BIT) s)
     | VTK_ID_TYPE \<Rightarrow> Done 0 (emit (vtkErrorMacro msg_VTK_ID_TYPE) s)
     | VTK_STRING \<Rightarrow> Done 0 (emit (vtkErrorMacro msg_VTK_STRING) s)
     | _ \<Rightarrow> Done goodSoFar s)"

definition ValidateRender ::
  "vtkSinglePassVolumeMapper \<Rightarrow> vtkRenderer option \<Rightarrow> vtkVolume option \<Rightarrow> sys \<Rightarrow> int outcome" where
  "ValidateRender m ren vol s0 =
    (let goodSoFar0 = 1;
         (goodSoFar1, s1) =
           (if ren = None
            then (0, emit (vtkErrorMacro msg_renderer) s0)
            else (goodSoFar0, s0));
         (goodSoFar2, s2) =
           (if goodSoFar1 \<noteq> 0 \<and> vol = None
            then (0, emit (vtkErrorMacro msg_volume) s1)
            else (goodSoFar1, s1));
         input = Input m;
         (goodSoFar3, s3) =
           (if goodSoFar2 \<noteq> 0 \<and> input = None
            then (0, emit (vtkErrorMacro msg_input) s2)
            else (goodSoFar2, s2));
         s4 = (if goodSoFar3 \<noteq> 0 then emit InputAlgorithm_Update s3 else s3)
     in
     andThen
       (if goodSoFar3 \<noteq> 0
        then andThen (deref input s4) (\<lambda>img s.
               let (scalars, flag) = GetScalars img;
                   s' = s\<lparr>Implementation := (Implementation s)\<lparr>CellFlag := flag\<rparr>\<rparr>
               in if scalars = None
                  then Done (0, scalars) (emit (vtkErrorMacro msg_no_scalars) s')
                  else if CellFlag (Implementation s') = 2
                  then Done (0, scalars)
                         (emit (vtkErrorMacro msg_field_scalars) s')
                  else Done (goodSoFar3, scalars) s')
        else Done (goodSoFar3, None) s4)
       (\<lambda>(goodSoFar4, scalars) s5.
     andThen
       (if goodSoFar4 \<noteq> 0
        then andThen (deref scalars s5) (\<lambda>a s. ValidateRender_type goodSoFar4 (DataType a) s)
        else Done goodSoFar4 s5)
       (\<lambda>goodSoFar5 s6.
     let (goodSoFar6, s7) =
           (if goodSoFar5 \<noteq> 0
            then (if Mapper_BlendMode m \<noteq> COMPOSITE_BLEND \<and>
                     Mapper_BlendMode m \<noteq> MAXIMUM_INTENSITY_BLEND \<and>
                     Mapper_BlendMode m \<noteq> MINIMUM_INTENSITY_BLEND \<and>
                     Mapper_BlendMode m \<noteq> ADDITIVE_BLEND
                  then (0, emit (vtkErrorMacro msg_blend_mode) s6)
                  else (goodSoFar5, s6))
            else (goodSoFar5, s6))
     in
     andThen
       (if goodSoFar6 \<noteq> 0
        then andThen (deref scalars s7) (\<lambda>a s.
               let numberOfComponents = NumberOfComponents a in
               andThen
                 (if numberOfComponents = 1 then Done True s
                  else if numberOfComponents = 4
                  then andThen (deref vol s) (\<lambda>v s. Done (IndependentComponents (Property v) = 0) s)
                  else Done False s)
                 (\<lambda>supported s.
                    if \<not> supported
                    then Done (0, numberOfComponents)
                           (emit (vtkErrorMacro msg_components) s)
                    else Done (goodSoFar6, numberOfComponents) s))
        else Done (goodSoFar6, 0) s7)
       (\<lambda>(goodSoFar7, numberOfComponents) s8.
     andThen
       (if goodSoFar7 \<noteq> 0 \<and> numberOfComponents = 4
        then andThen (deref scalars s8) (\<lambda>a s.
               if DataType a \<noteq> VTK_UNSIGNED_CHAR
               then Done 0 (emit (vtkErrorMacro msg_unsigned_char) s)
               else Done goodSoFar7 s)
        else Done goodSoFar7 s8)
       (\<lambda>goodSoFar8 s9.
     if goodSoFar8 \<noteq> 0 \<and> numberOfComponents \<noteq> 1 \<and> Mapper_BlendMode m = ADDITIVE_BLEND
     then Done 0 (emit (vtkErrorMacro msg_additive) s9)
     else Done goodSoFar8 s9)))))"

subsection \<open>LoadVolume and IsDataDirty\<close>

definition emits :: "event list \<Rightarrow> sys \<Rightarrow> sys" where
  "emits es s = s\<lparr>events := events s @ es\<rparr>"

text \<open>C++ division of doubles where the divisor may be zero.\<close>

definition fdiv :: "real \<Rightarrow> real \<Rightarrow> real option" where
  "fdiv a b = (if b = 0 then None else Some (a / b))"

text \<open>
  Modelled from the spec: vtkTimeStamp is not among the sources. The spec calls the build
  timestamp a monotonic marker that is advanced; \<^verbatim>\<open>Modified()\<close> takes the next value of
  the process-wide counter.
\<close>

definition Modified :: "sys \<Rightarrow> nat \<times> sys" where
  "Modified s = (Suc (GlobalTime s), s\<lparr>GlobalTime := Suc (GlobalTime s)\<rparr>)"

text \<open>The locals LoadVolume declares before its \<^verbatim>\<open>switch\<close> (lines 312-318), and the switch.\<close>

record texture_encoding =
  internalFormat :: gl_enum
  format :: gl_enum
  type :: gl_enum
  shift :: real
  scale :: "real option"
  needTypeConversion :: int

definition LoadVolume_locals :: texture_encoding where
  "LoadVolume_locals =
     \<lparr>internalFormat = GL_0, format = GL_0, type = GL_0, shift = 0.0, scale = Some 1.0,
      needTypeConversion = 0\<rparr>"

definition impossible_case :: "platform \<Rightarrow> texture_encoding \<Rightarrow> sys \<Rightarrow> texture_encoding outcome" where
  "impossible_case p e s = andThen (assert_that p False s) (\<lambda>u s'. Done e s')"

definition LoadVolume_encoder :: "platform \<Rightarrow> vtkDataArray \<Rightarrow> sys \<Rightarrow> texture_encoding outcome" where
  "LoadVolume_encoder p scalars s =
    (let e = LoadVolume_locals;
         ScalarsRange = ScalarsRange (Implementation s);
         scalarType = DataType scalars;
         unsupported = Done e (emit (cerr msg_scalar_type) s)
     in
     if NumberOfComponents scalars = 4
     then Done (e\<lparr>internalFormat := GL_RGBA16, format := GL_RGBA, type := GL_UNSIGNED_BYTE\<rparr>) s
     else
       (case scalarType of
          VTK_FLOAT \<Rightarrow>
            Done (e\<lparr>internalFormat :=
                       (if GL_ARB_texture_float p then INTENSITY16F_ARB else GL_INTENSITY16),
                     format := GL_RED, type := GL_FLOAT,
                     shift := - ScalarsRange 0,
                     scale := fdiv 1 (ScalarsRange 1 - ScalarsRange 0)\<rparr>) s
        | VTK_UNSIGNED_CHAR \<Rightarrow>
            Done (e\<lparr>internalFormat := GL_INTENSITY8, format := GL_RED, type := GL_UNSIGNED_BYTE,
                     shift := - ScalarsRange 0 / VTK_UNSIGNED_CHAR_MAX,
                     scale := fdiv VTK_UNSIGNED_CHAR_MAX (ScalarsRange 1 - ScalarsRange 0)\<rparr>) s
        | VTK_SIGNED_CHAR \<Rightarrow>
            Done (e\<lparr>internalFormat := GL_INTENSITY8, format := GL_RED, type := GL_BYTE,
                     shift := - (2 * ScalarsRange 0 + 1) / VTK_UNSIGNED_CHAR_MAX,
                     scale := fdiv VTK_SIGNED_CHAR_MAX (ScalarsRange 1 - ScalarsRange 0)\<rparr>) s
        | VTK_CHAR \<Rightarrow> impossible_case p e s
        | VTK_BIT \<Rightarrow> impossible_case p e s
        | VTK_ID_TYPE \<Rightarrow> impossible_case p e s
        | VTK_INT \<Rightarrow>
            Done (e\<lparr>internalFormat := GL_INTENSITY16, format := GL_RED, type := GL_INT,
                     shift := - (2 * ScalarsRange 0 + 1) / VTK_UNSIGNED_INT_MAX,
                     scale := fdiv VTK_INT_MAX (ScalarsRange 1 - ScalarsRange 0)\<rparr>) s
        | VTK_DOUBLE \<Rightarrow> unsupported
        | VTK___INT64 \<Rightarrow> unsupported
        | VTK_LONG \<Rightarrow> unsupported
        | VTK_LONG_LONG \<Rightarrow> unsupported
        | VTK_UNSIGNED___INT64 \<Rightarrow> unsupported
        | VTK_UNSIGNED_LONG \<Rightarrow> unsupported
        | VTK_UNSIGNED_LONG_LONG \<Rightarrow> unsupported
        | VTK_SHORT \<Rightarrow>
            Done (e\<lparr>internalFormat := GL_INTENSITY16, format := GL_RED, type := GL_SHORT,
                     shift := - (2 * ScalarsRange 0 + 1) / VTK_UNSIGNED_SHORT_MAX,
                     scale := fdiv VTK_SHORT_MAX (ScalarsRange 1 - ScalarsRange 0)\<rparr>) s
        | VTK_STRING \<Rightarrow> impossible_case p e s
        | VTK_UNSIGNED_SHORT \<Rightarrow>
            Done (e\<lparr>internalFormat := GL_INTENSITY16, format := GL_RED, type := GL_UNSIGNED_SHORT,
                     shift := - ScalarsRange 0 / VTK_UNSIGNED_SHORT_MAX,
                     scale := fdiv VTK_UNSIGNED_SHORT_MAX (ScalarsRange 1 - ScalarsRange 0)\<rparr>) s
        | VTK_UNSIGNED_INT \<Rightarrow>
            Done (e\<lparr>internalFormat := GL_INTENSITY16, format := GL_RED, type := GL_UNSIGNED_INT,
                     shift := - ScalarsRange 0 / VTK_UNSIGNED_INT_MAX,
                     scale := fdiv VTK_UNSIGNED_INT_MAX (ScalarsRange 1 - ScalarsRange 0)\<rparr>) s
        | VTK_OTHER \<Rightarrow> impossible_case p e s))"

text \<open>The loop over the three axes that sets \<open>TextureSize\<close> (lines 427-432).\<close>

function LoadVolume_sizes :: "nat \<Rightarrow> vtkInternal \<Rightarrow> vtkInternal" where
  "LoadVolume_sizes i self =
     (if i < 3
      then LoadVolume_sizes (i + 1)
             (self\<lparr>TextureSize := (TextureSize self)
                      (i := Extents self (2 * i + 1) - Extents self (2 * i) + 1)\<rparr>)
      else self)"
  by pat_completeness auto
termination
  by (relation "measure (\<lambda>(i, self). 3 - i)") auto

declare LoadVolume_sizes.simps [simp del]

text \<open>The calls that create the 3D texture and set its parameters (lines 293-302).\<close>

definition LoadVolume_texture :: "event list" where
  "LoadVolume_texture =
     [GL ''glActiveTexture(GL_TEXTURE0)'',
      GL ''glGenTextures(1, &VolumeTextureId)'',
      GL ''glBindTexture(GL_TEXTURE_3D, VolumeTextureId)'',
      GL ''glTexParameteri(GL_TEXTURE_3D, GL_TEXTURE_WRAP_S, GL_CLAMP)'',
      GL ''glTexParameteri(GL_TEXTURE_3D, GL_TEXTURE_WRAP_T, GL_CLAMP)'',
      GL ''glTexParameteri(GL_TEXTURE_3D, GL_TEXTURE_WRAP_R, GL_CLAMP)'',
      GL ''glTexParameteri(GL_TEXTURE_3D, GL_TEXTURE_MAG_FILTER, GL_LINEAR)'',
      GL ''glTexParameteri(GL_TEXTURE_3D, GL_TEXTURE_MIN_FILTER, GL_LINEAR)'']"

definition LoadVolume :: "platform \<Rightarrow> vtkImageData \<Rightarrow> vtkDataArray \<Rightarrow> sys \<Rightarrow> bool outcome" where
  "LoadVolume p imageData scalars s0 =
    (let s1 = emits LoadVolume_texture s0
     in
     andThen (GL_CHECK_ERRORS p s1) (\<lambda>u s2.
     andThen (LoadVolume_encoder p scalars s2) (\<lambda>e s3.
       let self1 = (Implementation s3)\<lparr>Scale := scale e\<rparr>;
           self2 = self1\<lparr>Extents := Extent imageData\<rparr>;
           self3 = LoadVolume_sizes 0 self2;
           s4 = emit (glTexImage3D (internalFormat e)
                        (TextureSize self3 0) (TextureSize self3 1) (TextureSize self3 2)
                        (format e) (type e))
                  (s3\<lparr>Implementation := self3\<rparr>)
       in
       andThen (GL_CHECK_ERRORS p s4) (\<lambda>u s5.
         let (t, s6) = Modified s5
         in Done True (s6\<lparr>Implementation := (Implementation s6)\<lparr>VolumeBuildTime := t\<rparr>\<rparr>)))))"

definition IsInitialized :: "sys \<Rightarrow> bool" where
  "IsInitialized s = Initialized (Implementation s)"

definition IsDataDirty :: "vtkImageData \<Rightarrow> sys \<Rightarrow> bool" where
  "IsDataDirty input s =
     (if MTime input > VolumeBuildTime (Implementation s) then True else False)"

subsection \<open>ComputeBounds\<close>

text \<open>The loop that decrements the upper ends of \<open>wholeTextureExtent\<close> (lines 517-522).\<close>

function ComputeBounds_whole :: "nat \<Rightarrow> (nat \<Rightarrow> int) \<Rightarrow> (nat \<Rightarrow> int)" where
  "ComputeBounds_whole i wholeTextureExtent =
     (if i < 6
      then ComputeBounds_whole (i + 2) (wholeTextureExtent(i := wholeTextureExtent i - 1))
      else wholeTextureExtent)"
  by pat_completeness auto
termination
  by (relation "measure (\<lambda>(i, w). 6 - i)") auto

declare ComputeBounds_whole.simps [simp del]

text \<open>The loop over the axes in cell semantics (lines 524-548): its body, and the loop.\<close>

definition ComputeBounds_axis ::
  "nat \<Rightarrow> (nat \<Rightarrow> int) \<Rightarrow> (nat \<Rightarrow> real) \<Rightarrow> (nat \<Rightarrow> real) \<Rightarrow> (nat \<Rightarrow> nat) \<Rightarrow> vtkInternal \<Rightarrow> vtkInternal" where
  "ComputeBounds_axis i wholeTextureExtent spacing origin swapBounds self =
     (let self1 =
            (if Extents self (2 * i) = wholeTextureExtent (2 * i)
             then self\<lparr>Bounds := (Bounds self)(2 * i + swapBounds i := origin i)\<rparr>
             else self\<lparr>Bounds := (Bounds self)(2 * i + swapBounds i :=
                    origin i + (real_of_int (Extents self (2 * i)) + 0.5) * spacing i)\<rparr>);
          self2 =
            (if Extents self1 (2 * i + 1) = wholeTextureExtent (2 * i + 1)
             then self1\<lparr>Bounds := (Bounds self1)(2 * i + 1 - swapBounds i :=
                    origin i + (real_of_int (Extents self1 (2 * i + 1)) + 1.0) * spacing i)\<rparr>
             else self1\<lparr>Bounds := (Bounds self1)(2 * i + 1 - swapBounds i :=
                    origin i + (real_of_int (Extents self1 (2 * i + 1)) + 0.5) * spacing i)\<rparr>)
      in self2)"

function ComputeBounds_cells ::
  "nat \<Rightarrow> (nat \<Rightarrow> int) \<Rightarrow> (nat \<Rightarrow> real) \<Rightarrow> (nat \<Rightarrow> real) \<Rightarrow> (nat \<Rightarrow> nat) \<Rightarrow> vtkInternal \<Rightarrow> vtkInternal" where
  "ComputeBounds_cells i wholeTextureExtent spacing origin swapBounds self =
     (if i < 3
      then ComputeBounds_cells (i + 1) wholeTextureExtent spacing origin swapBounds
             (ComputeBounds_axis i wholeTextureExtent spacing origin swapBounds self)
      else self)"
  by pat_completeness auto
termination
  by (relation "measure (\<lambda>(i, w, sp, orig, sw, self). 3 - i)") auto

declare ComputeBounds_cells.simps [simp del]

definition ComputeBounds :: "vtkImageData \<Rightarrow> vtkInternal \<Rightarrow> vtkInternal" where
  "ComputeBounds input self0 =
    (let spacing = Spacing input;
         origin = Origin input;
         self = self0\<lparr>Extents := Extent input\<rparr>;
         swapBounds = (\<lambda>i::nat. if spacing i < 0 then 1 else 0 :: nat)
     in
     if CellFlag self = 0
     then
       self\<lparr>Bounds := (Bounds self)
         (0 := origin 0 + real_of_int (Extents self (0 + swapBounds 0)) * spacing 0,
          2 := origin 1 + real_of_int (Extents self (2 + swapBounds 1)) * spacing 1,
          4 := origin 2 + real_of_int (Extents self (4 + swapBounds 2)) * spacing 2,
          1 := origin 0 + real_of_int (Extents self (1 - swapBounds 0)) * spacing 0,
          3 := origin 1 + real_of_int (Extents self (3 - swapBounds 1)) * spacing 1,
          5 := origin 2 + real_of_int (Extents self (5 - swapBounds 2)) * spacing 2)\<rparr>
     else
       (let wholeTextureExtent = ComputeBounds_whole 1 (Extent input)
        in ComputeBounds_cells 0 wholeTextureExtent spacing origin swapBounds self))"

subsection \<open>The transfer function tables\<close>

text \<open>
  The table objects (\<^verbatim>\<open>RGBTable\<close>, \<^verbatim>\<open>OpacityTables\<close>) are created by Initialize, which
  GPURender runs before their first use; their \<^verbatim>\<open>Update\<close> and \<^verbatim>\<open>Bind\<close> are events.
  The volume is passed by pointer and its property's functions are changed in place: the
  model returns the volume as the call left it.
\<close>

definition glActiveTexture_0 :: event where
  "glActiveTexture_0 = GL ''glActiveTexture(GL_TEXTURE0)''"

definition UpdateColorTransferFunction ::
  "vtkVolume option \<Rightarrow> int \<Rightarrow> sys \<Rightarrow> (int \<times> vtkVolume option) outcome" where
  "UpdateColorTransferFunction vol numberOfScalarComponents s =
    (if numberOfScalarComponents = 1
     then andThen (deref vol s) (\<lambda>v s1.
       let volumeProperty = Property v;
           range = ScalarsRange (Implementation s1);
           colorTransferFunction = RGBTransferFunction volumeProperty;
           colorTransferFunction' =
             (if GetSize colorTransferFunction < 1
              then AddRGBPoint (range 1) 1.0 1.0 1.0
                     (AddRGBPoint (range 0) 0.0 0.0 0.0 colorTransferFunction)
              else colorTransferFunction);
           s2 = emit (RGBTable_Update colorTransferFunction' (range 0) (range 1)
                        (InterpolationType volumeProperty = VTK_LINEAR_INTERPOLATION)) s1;
           s3 = emit glActiveTexture_0 s2
       in Done (0, Some (v\<lparr>Property := volumeProperty
                  \<lparr>RGBTransferFunction := colorTransferFunction'\<rparr>\<rparr>)) s3)
     else Done (1, vol)
            (emit (cerr msg_multi_component) s))"

definition UpdateOpacityTransferFunction ::
  "vtkSinglePassVolumeMapper \<Rightarrow> vtkVolume option \<Rightarrow> int \<Rightarrow> nat \<Rightarrow> sys \<Rightarrow>
   (int \<times> vtkVolume option) outcome" where
  "UpdateOpacityTransferFunction Parent vol numberOfScalarComponents level s =
    (case vol of
       None \<Rightarrow> Done (1, vol) (emit (cerr msg_invalid_volume) s)
     | Some v \<Rightarrow>
       if numberOfScalarComponents \<noteq> 1
       then Done (1, vol)
              (emit (cerr msg_multi_component) s)
       else
         (let volumeProperty = Property v;
              range = ScalarsRange (Implementation s);
              scalarOpacity = ScalarOpacity volumeProperty;
              scalarOpacity' =
                (if GetSize scalarOpacity < 1
                 then AddPoint (range 1) 0.5 (AddPoint (range 0) 0.0 scalarOpacity)
                 else scalarOpacity);
              s1 = emit (OpacityTable_Update level scalarOpacity' (BlendMode (Implementation s))
                           (SampleDistance Parent) (range 0) (range 1)
                           (ScalarOpacityUnitDistance volumeProperty)
                           (InterpolationType volumeProperty = VTK_LINEAR_INTERPOLATION)) s;
              s2 = emit glActiveTexture_0 s1
          in Done (0, Some (v\<lparr>Property := volumeProperty\<lparr>ScalarOpacity := scalarOpacity'\<rparr>\<rparr>)) s2))"

subsection \<open>UpdateNoiseTexture\<close>

text \<open>The inner and the outer loop that fill the grid (lines 661-672).\<close>

function UpdateNoiseTexture_i ::
  "(int \<Rightarrow> int \<Rightarrow> real) \<Rightarrow> real \<Rightarrow> int \<Rightarrow> int \<Rightarrow> int \<Rightarrow> real list \<Rightarrow> real list" where
  "UpdateNoiseTexture_i noise amplitude sz j i data =
     (if i < sz
      then UpdateNoiseTexture_i noise amplitude sz j (i + 1)
             (data[nat (j * sz + i) := amplitude + noise i j])
      else data)"
  by pat_completeness auto
termination
  by (relation "measure (\<lambda>(noise, amplitude, sz, j, i, data). nat (sz - i))") auto

declare UpdateNoiseTexture_i.simps [simp del]

function UpdateNoiseTexture_j ::
  "(int \<Rightarrow> int \<Rightarrow> real) \<Rightarrow> real \<Rightarrow> int \<Rightarrow> int \<Rightarrow> real list \<Rightarrow> real list" where
  "UpdateNoiseTexture_j noise amplitude sz j data =
     (if j < sz
      then UpdateNoiseTexture_j noise amplitude sz (j + 1)
             (UpdateNoiseTexture_i noise amplitude sz j 0 data)
      else data)"
  by pat_completeness auto
termination
  by (relation "measure (\<lambda>(noise, amplitude, sz, j, data). nat (sz - j))") auto

declare UpdateNoiseTexture_j.simps [simp del]

text \<open>The calls before the grid is built, and those after its upload.\<close>

definition UpdateNoiseTexture_texture :: "event list" where
  "UpdateNoiseTexture_texture =
     [GL ''glActiveTexture(GL_TEXTURE3)'',
      GL ''glGenTextures(1, &NoiseTextureId)'',
      GL ''glBindTexture(GL_TEXTURE_2D, NoiseTextureId)'']"

definition glGetIntegerv_GL_MAX_TEXTURE_SIZE :: event where
  "glGetIntegerv_GL_MAX_TEXTURE_SIZE = GL ''glGetIntegerv(GL_MAX_TEXTURE_SIZE, &maxSize)''"

definition UpdateNoiseTexture_parameters :: "event list" where
  "UpdateNoiseTexture_parameters =
     [GL ''glTexParameterf(GL_TEXTURE_2D, GL_TEXTURE_WRAP_S, GL_REPEAT)'',
      GL ''glTexParameterf(GL_TEXTURE_2D, GL_TEXTURE_WRAP_T, GL_REPEAT)'',
      GL ''glTexParameteri(GL_TEXTURE_2D, GL_TEXTURE_MIN_FILTER, GL_NEAREST)'',
      GL ''glTexParameteri(GL_TEXTURE_2D, GL_TEXTURE_MAG_FILTER, GL_NEAREST)'',
      GL ''glActiveTexture(GL_TEXTURE0)'']"

text \<open>
  \<^verbatim>\<open>new float[size * size]\<close> is a list of that length; its cells hold no defined value
  until the loops write them, and the model starts them at 0.
\<close>

definition UpdateNoiseTexture :: "platform \<Rightarrow> sys \<Rightarrow> sys" where
  "UpdateNoiseTexture p s0 =
    (if NoiseTextureData (Implementation s0) = None
     then
       (let s1 = emits UpdateNoiseTexture_texture s0;
            size0 = 128;
            factor = 0.1;
            amplitude = 0.5 * factor;
            maxSize = GL_MAX_TEXTURE_SIZE p;
            s2 = emit glGetIntegerv_GL_MAX_TEXTURE_SIZE s1;
            size = (if size0 > maxSize then maxSize else size0);
            s3 = (if NoiseTextureData (Implementation s2) \<noteq> None \<and>
                     NoiseTextureSize (Implementation s2) \<noteq> size
                  then s2\<lparr>Implementation := (Implementation s2)\<lparr>NoiseTextureData := None\<rparr>\<rparr>
                  else s2);
            s4 = (if NoiseTextureData (Implementation s3) = None
                  then
                    (let data = replicate (nat (size * size)) 0;
                         noise = EvaluateFunction p size amplitude
                     in s3\<lparr>Implementation := (Implementation s3)
                          \<lparr>NoiseTextureData :=
                             Some (UpdateNoiseTexture_j noise amplitude size 0 data),
                           NoiseTextureSize := size\<rparr>\<rparr>)
                  else s3)
        in emits
             (glTexImage2D size (NoiseTextureData (Implementation s4)) #
              UpdateNoiseTexture_parameters) s4)
     else s0)"

subsection \<open>UpdateVolumeGeometry and Initialize\<close>

definition cubeIndices :: "nat list" where
  "cubeIndices =
     [0,5,4, 5,0,1, 3,7,6, 3,6,2, 7,4,6, 6,4,5, 2,1,3, 3,1,0, 3,0,7, 7,0,4, 6,5,2, 2,5,1]"

definition UpdateVolumeGeometry_bind :: "event list" where
  "UpdateVolumeGeometry_bind =
     [GL ''glBindVertexArray(CubeVAOId)'',
      GL ''glBindBuffer(GL_ARRAY_BUFFER, CubeVBOId)'']"

definition UpdateVolumeGeometry_attributes :: "event list" where
  "UpdateVolumeGeometry_attributes =
     [GL ''glEnableVertexAttribArray(in_vertex_pos)'',
      GL ''glVertexAttribPointer(in_vertex_pos, 3, GL_DOUBLE, GL_FALSE, 0, 0)'',
      GL ''glBindBuffer(GL_ELEMENT_ARRAY_BUFFER, CubeIndicesId)'']"

definition glBindVertexArray_0 :: event where
  "glBindVertexArray_0 = GL ''glBindVertexArray(0)''"

definition UpdateVolumeGeometry :: "platform \<Rightarrow> sys \<Rightarrow> unit outcome" where
  "UpdateVolumeGeometry p s0 =
    (let B = Bounds (Implementation s0);
         vertices =
           [B 0, B 2, B 4,  B 1, B 2, B 4,  B 1, B 3, B 4,  B 0, B 3, B 4,
            B 0, B 2, B 5,  B 1, B 2, B 5,  B 1, B 3, B 5,  B 0, B 3, B 5];
         s1 = emits (UpdateVolumeGeometry_bind @ [glBufferData_vertices vertices]) s0
     in
     andThen (GL_CHECK_ERRORS p s1) (\<lambda>u s2.
       let s3 = emits (UpdateVolumeGeometry_attributes @ [glBufferData_indices cubeIndices]) s2
       in
       andThen (GL_CHECK_ERRORS p s3) (\<lambda>u s4.
         Done () (emit glBindVertexArray_0 s4))))"

text \<open>
  Initialize: the console output, the shader's attribute and uniform declarations and the
  creation of the buffers and tables are recorded as one event each.
\<close>

definition Initialize_glew :: "event list" where
  "Initialize_glew = [GL ''glewInit()'', GL ''glGetError()'']"

definition Initialize_shader :: "event list" where
  "Initialize_shader =
     [GL ''Shader.LoadFromString(GL_VERTEX_SHADER, raycastervs)'',
      GL ''Shader.LoadFromString(GL_FRAGMENT_SHADER, raycasterfs)'',
      GL ''Shader.CreateAndLinkProgram()'',
      GL ''Shader.Use()'',
      GL ''Shader.AddAttribute / AddUniform'',
      GL ''glGenVertexArrays(1, &CubeVAOId)'',
      GL ''glGenBuffers(1, &CubeVBOId)'',
      GL ''glGenBuffers(1, &CubeIndicesId)'',
      GL ''new vtkOpenGLRGBTable()'',
      GL ''new vtkOpenGLOpacityTables(1)'',
      GL ''Shader.UnUse()'']"

definition Initialize :: "platform \<Rightarrow> sys \<Rightarrow> unit outcome" where
  "Initialize p s0 =
    (let s1 = emits Initialize_glew s0
     in
     andThen (GL_CHECK_ERRORS p s1) (\<lambda>u s2.
       let s3 = emits Initialize_shader s2
       in Done () (s3\<lparr>Implementation := (Implementation s3)\<lparr>Initialized := True\<rparr>\<rparr>)))"

subsection \<open>GPURender and Render\<close>

text \<open>
  The uniforms (lines 1044-1063), and the bindings, the draw call and the clean-up that
  follow them (lines 1065-1195). The camera and the matrices are read from the renderer
  and only passed on; a \<^verbatim>\<open>double\<close> passed as a \<^verbatim>\<open>float\<close> uniform keeps its value in
  the model.
\<close>

definition GPURender_uniforms :: "vtkSinglePassVolumeMapper \<Rightarrow> vtkInternal \<Rightarrow> event list" where
  "GPURender_uniforms m self =
     [glUniform3f ''step_size'' (StepSize self 0) (StepSize self 1) (StepSize self 2),
      glUniform1f ''sample_distance'' (Some (SampleDistance m)),
      glUniform3f ''cell_scale''
        (Some (CellScale self 0)) (Some (CellScale self 1)) (Some (CellScale self 2)),
      glUniform1f ''scale'' (Scale self),
      glUniform1i ''volume'' 0,
      glUniform1i ''color_transfer_func'' 1,
      glUniform1i ''opacity_transfer_func'' 2,
      glUniform1i ''noise'' 3]"

definition GPURender_bind_and_draw ::
  "vtkSinglePassVolumeMapper \<Rightarrow> vtkRenderer \<Rightarrow> vtkVolume \<Rightarrow> vtkInternal \<Rightarrow> event list" where
  "GPURender_bind_and_draw m ren v self =
    (let B = Mapper_Bounds m;
         pos = CameraPosition ren;
         E = Extents self
     in
     [glUniform1i ''enable_shading'' (Shade (Property v)),
      glUniform3f ''ambient'' (Some 0.0) (Some 0.0) (Some 0.0),
      glUniform3f ''diffuse'' (Some 0.2) (Some 0.2) (Some 0.2),
      glUniform3f ''specular'' (Some 0.2) (Some 0.2) (Some 0.2),
      glUniform1f ''shininess'' (Some 10.0),
      GL ''glActiveTexture(GL_TEXTURE0)'',
      GL ''glBindTexture(GL_TEXTURE_3D, VolumeTextureId)'',
      RGBTable_Bind,
      OpacityTable_Bind 0,
      GL ''glActiveTexture(GL_TEXTURE3)'',
      GL ''glBindTexture(GL_TEXTURE_2D, NoiseTextureId)'',
      glUniformMatrix4fv ''projection_matrix'',
      glUniformMatrix4fv ''modelview_matrix'',
      glUniformMatrix4fv ''scene_matrix'',
      glUniform3fv ''camera_pos'' (pos 0) (pos 1) (pos 2),
      glUniform3fv ''light_pos'' (pos 0) (pos 1) (pos 2),
      glUniform3fv ''vol_extents_min'' (B 0) (B 2) (B 4),
      glUniform3fv ''vol_extents_max'' (B 1) (B 3) (B 5),
      glUniform3fv ''texture_extents_min''
        (real_of_int (E 0)) (real_of_int (E 2)) (real_of_int (E 4)),
      glUniform3fv ''texture_extents_max''
        (real_of_int (E 1)) (real_of_int (E 3)) (real_of_int (E 5)),
      GL ''glBindVertexArray(CubeVAOId)'',
      glDrawElements 36,
      GL ''Shader.UnUse()'',
      GL ''glBindVertexArray(0)'',
      GL ''glDisable(GL_BLEND)'',
      GL ''glActiveTexture(GL_TEXTURE0)'',
      GL ''glDisable(GL_TEXTURE_3D)'',
      GL ''glDisable(GL_TEXTURE_2D)'',
      GL ''glDisable(GL_TEXTURE_1D)''])"

definition GPURender_draw ::
  "vtkSinglePassVolumeMapper \<Rightarrow> vtkRenderer \<Rightarrow> vtkVolume option \<Rightarrow> sys \<Rightarrow> unit outcome" where
  "GPURender_draw m ren vol s0 =
    (let s1 = emits (GPURender_uniforms m (Implementation s0)) s0
     in
     andThen (deref vol s1) (\<lambda>v s2.
       Done () (emits (GPURender_bind_and_draw m ren v (Implementation s2)) s2)))"

text \<open>The step size and the cell scale (lines 1032-1039).\<close>

definition GPURender_step :: "vtkSinglePassVolumeMapper \<Rightarrow> vtkInternal \<Rightarrow> vtkInternal" where
  "GPURender_step m self =
    (let B = Mapper_Bounds m;
         self1 = self\<lparr>StepSize := (StepSize self)(0 := fdiv 1.0 (B 1 - B 0))\<rparr>;
         self2 = self1\<lparr>StepSize := (StepSize self1)(1 := fdiv 1.0 (B 3 - B 2))\<rparr>;
         self3 = self2\<lparr>StepSize := (StepSize self2)(2 := fdiv 1.0 (B 5 - B 4))\<rparr>;
         self4 = self3\<lparr>CellScale := (CellScale self3)(0 := (B 1 - B 0) * 0.5)\<rparr>;
         self5 = self4\<lparr>CellScale := (CellScale self4)(1 := (B 3 - B 2) * 0.5)\<rparr>;
         self6 = self5\<lparr>CellScale := (CellScale self5)(2 := (B 5 - B 4) * 0.5)\<rparr>
     in self6)"

definition GPURender_enable :: "event list" where
  "GPURender_enable =
     [GL ''glEnable(GL_TEXTURE_1D)'',
      GL ''glEnable(GL_TEXTURE_2D)'',
      GL ''glEnable(GL_TEXTURE_3D)'']"

definition Shader_Use :: event where
  "Shader_Use = GL ''Shader.Use()''"

definition GPURender_blend :: "event list" where
  "GPURender_blend =
     [GL ''glEnable(GL_DEPTH_TEST)'',
      GL ''glBlendFunc(GL_SRC_ALPHA, GL_ONE_MINUS_SRC_ALPHA)'',
      GL ''glEnable(GL_BLEND)'']"

text \<open>Loading the volume if the data is dirty (lines 995-1002).\<close>

definition GPURender_load :: "platform \<Rightarrow> vtkImageData \<Rightarrow> vtkDataArray \<Rightarrow> sys \<Rightarrow> unit outcome" where
  "GPURender_load p img a s9 =
     (if IsDataDirty img s9
      then
        (let s10 = s9\<lparr>Implementation := ComputeBounds img (Implementation s9)\<rparr>
         in andThen (LoadVolume p img a s10) (\<lambda>ignored s11. UpdateVolumeGeometry p s11))
      else Done () s9)"

text \<open>
  The shader, the two transfer function tables, the noise texture and the blending state
  (lines 1004-1030). The values the two table updates return are not read.
\<close>

definition GPURender_tables ::
  "platform \<Rightarrow> vtkSinglePassVolumeMapper \<Rightarrow> vtkVolume option \<Rightarrow> vtkDataArray \<Rightarrow> sys \<Rightarrow>
   vtkVolume option outcome" where
  "GPURender_tables p m vol a s12 =
    andThen (UpdateOpacityTransferFunction m vol (NumberOfComponents a) 0 (emit Shader_Use s12))
      (\<lambda>(ignored1, vol1) s13.
    andThen (UpdateColorTransferFunction vol1 (NumberOfComponents a) s13)
      (\<lambda>(ignored2, vol2) s14.
    andThen (GL_CHECK_ERRORS p (UpdateNoiseTexture p s14)) (\<lambda>u s15.
    andThen (GL_CHECK_ERRORS p (emits GPURender_blend s15)) (\<lambda>u s16.
    Done vol2 s16))))"

definition GPURender ::
  "platform \<Rightarrow> vtkSinglePassVolumeMapper \<Rightarrow> vtkRenderer option \<Rightarrow> vtkVolume option \<Rightarrow> sys \<Rightarrow>
   vtkVolume option outcome" where
  "GPURender p m ren vol s0 =
    andThen (deref ren s0) (\<lambda>r s1.
    andThen (deref vol (emit MakeCurrent s1)) (\<lambda>v s2.
    let s3 = emit Volume_Update s2;
        input = Input m;
        s4 = emits GPURender_enable s3
    in
    andThen (if \<not> IsInitialized s4 then Initialize p s4 else Done () s4) (\<lambda>u s5.
    andThen (deref input s5) (\<lambda>img s6.
    let (scalars, flag) = GetScalars img;
        s7 = s6\<lparr>Implementation := (Implementation s6)\<lparr>CellFlag := flag\<rparr>\<rparr>
    in
    andThen (deref scalars s7) (\<lambda>a s8.
    let s9 = s8\<lparr>Implementation := (Implementation s8)\<lparr>ScalarsRange := Range a\<rparr>\<rparr>
    in
    andThen (GPURender_load p img a s9) (\<lambda>u s12.
    andThen (GPURender_tables p m vol a s12) (\<lambda>vol2 s16.
    andThen (GPURender_draw m r vol2
               (s16\<lparr>Implementation := GPURender_step m (Implementation s16)\<rparr>))
      (\<lambda>u s17. Done vol2 s17))))))))"

definition VolumeMapperRenderStartEvent :: event where
  "VolumeMapperRenderStartEvent = InvokeEvent ''VolumeMapperRenderStartEvent''"

definition VolumeMapperRenderEndEvent :: event where
  "VolumeMapperRenderEndEvent = InvokeEvent ''VolumeMapperRenderEndEvent''"

definition StartTimer :: event where
  "StartTimer = Timer ''StartTimer''"

definition StopTimer :: event where
  "StopTimer = Timer ''StopTimer''"

definition Render ::
  "platform \<Rightarrow> vtkSinglePassVolumeMapper \<Rightarrow> vtkRenderer option \<Rightarrow> vtkVolume option \<Rightarrow> sys \<Rightarrow>
   vtkVolume option outcome" where
  "Render p m ren vol s0 =
    (let s1 = emit VolumeMapperRenderStartEvent s0;
         s2 = emit StartTimer s1
     in
     andThen (ValidateRender m ren vol s2) (\<lambda>valid s3.
     andThen (if valid \<noteq> 0 then GPURender p m ren vol s3 else Done vol s3) (\<lambda>vol' s4.
       let s5 = emit StopTimer s4;
           s6 = s5\<lparr>Implementation := (Implementation s5)\<lparr>ElapsedDrawTime := GetElapsedTime p\<rparr>\<rparr>;
           s7 = emit VolumeMapperRenderEndEvent s6
       in Done vol' s7)))"

subsection \<open>Notions the properties are stated with\<close>

text \<open>
  The scalar types for which the \<^verbatim>\<open>switch\<close> of LoadVolume chooses a texture format
  for single-component data.
\<close>

definition supported_single :: "vtk_type \<Rightarrow> bool" where
  "supported_single t \<longleftrightarrow>
     t = VTK_FLOAT \<or> t = VTK_UNSIGNED_CHAR \<or> t = VTK_SIGNED_CHAR \<or> t = VTK_SHORT \<or>
     t = VTK_UNSIGNED_SHORT \<or> t = VTK_INT \<or> t = VTK_UNSIGNED_INT"

definition signed_integer :: "vtk_type \<Rightarrow> bool" where
  "signed_integer t \<longleftrightarrow> t = VTK_SIGNED_CHAR \<or> t = VTK_SHORT \<or> t = VTK_INT"

text \<open>
  What the texture unit of OpenGL returns for a texel uploaded as the raw value \<open>c\<close>:
  its fixed-point conversion takes an unsigned \<open>b\<close>-bit \<open>c\<close> to \<open>c / (2^b - 1)\<close> and a
  signed one to \<open>(2c + 1) / (2^b - 1)\<close>; a float is taken as it is. The largest
  normalized value is 1. \<open>encoded\<close> is the affine map the shift and the scale stand for.
\<close>

definition normalized_raw :: "vtk_type \<Rightarrow> real \<Rightarrow> real" where
  "normalized_raw t c =
     (case t of
        VTK_UNSIGNED_CHAR \<Rightarrow> c / 255
      | VTK_SIGNED_CHAR \<Rightarrow> (2 * c + 1) / 255
      | VTK_UNSIGNED_SHORT \<Rightarrow> c / 65535
      | VTK_SHORT \<Rightarrow> (2 * c + 1) / 65535
      | VTK_UNSIGNED_INT \<Rightarrow> c / 4294967295
      | VTK_INT \<Rightarrow> (2 * c + 1) / 4294967295
      | _ \<Rightarrow> c)"

definition encoded :: "vtk_type \<Rightarrow> real \<Rightarrow> real \<Rightarrow> real \<Rightarrow> real" where
  "encoded t sh sc raw = (normalized_raw t raw + sh) * sc"

text \<open>The events a call added to the events of the state it started from.\<close>

definition new_events :: "sys \<Rightarrow> sys \<Rightarrow> event list" where
  "new_events s s' = drop (length (events s)) (events s')"

definition is_error :: "event \<Rightarrow> bool" where
  "is_error e = (case e of vtkErrorMacro msg \<Rightarrow> True | _ \<Rightarrow> False)"

text \<open>
  The checks of ValidateRender, as one condition on its arguments: what it accepts.
\<close>

definition accepted ::
  "vtkSinglePassVolumeMapper \<Rightarrow> vtkRenderer option \<Rightarrow> vtkVolume option \<Rightarrow> bool" where
  "accepted m ren vol =
     (case (ren, vol, Input m) of
        (Some r, Some v, Some img) \<Rightarrow>
          (case Scalars img of
             Some a \<Rightarrow>
               ScalarsAssociation img \<noteq> 2 \<and>
               DataType a \<noteq> VTK_CHAR \<and> DataType a \<noteq> VTK_BIT \<and>
               DataType a \<noteq> VTK_ID_TYPE \<and> DataType a \<noteq> VTK_STRING \<and>
               Mapper_BlendMode m \<noteq> OTHER_BLEND \<and>
               (NumberOfComponents a = 1 \<or>
                NumberOfComponents a = 4 \<and> IndependentComponents (Property v) = 0 \<and>
                DataType a = VTK_UNSIGNED_CHAR \<and> Mapper_BlendMode m \<noteq> ADDITIVE_BLEND)
           | None \<Rightarrow> False)
      | _ \<Rightarrow> False)"

text \<open>
  What a run of ValidateRender amounts to: it returns, 1 if the arguments are accepted and
  0 if not; it reports one error when it returns 0 and none when it returns 1, the error
  being the last thing it does; it stores the cell flag and touches nothing else.
\<close>

definition validation :: "vtkSinglePassVolumeMapper \<Rightarrow> vtkRenderer option \<Rightarrow> vtkVolume option \<Rightarrow> sys \<Rightarrow> int outcome \<Rightarrow> bool" where
  "validation m ren vol s out \<longleftrightarrow>
     returned out = Some (if accepted m ren vol then 1 else 0) \<and>
     length (filter is_error (new_events s (final out))) = (if accepted m ren vol then 0 else 1) \<and>
     (\<not> accepted m ren vol \<longrightarrow> is_error (last (events (final out)))) \<and>
     MakeCurrent \<notin> set (new_events s (final out)) \<and>
     prefix (events s) (events (final out)) \<and>
     GlobalTime (final out) = GlobalTime s \<and>
     (\<forall>img. Input m = Some img \<and> accepted m ren vol \<longrightarrow> 
        Implementation (final out) = (Implementation s)\<lparr>CellFlag := ScalarsAssociation img\<rparr>)"

text \<open>A call only adds events: the events of the state it started from are a prefix.\<close>

definition extends :: "sys \<Rightarrow> 'a outcome \<Rightarrow> bool" where
  "extends s out = prefix (events s) (events (final out))"

text \<open>A volume with its colour function, or its opacity function, replaced.\<close>

definition with_color :: "rgb_point list \<Rightarrow> vtkVolume \<Rightarrow> vtkVolume" where
  "with_color c v = v\<lparr>Property := (Property v)\<lparr>RGBTransferFunction := c\<rparr>\<rparr>"

definition with_opacity :: "opacity_point list \<Rightarrow> vtkVolume \<Rightarrow> vtkVolume" where
  "with_opacity f v = v\<lparr>Property := (Property v)\<lparr>ScalarOpacity := f\<rparr>\<rparr>"

subsection \<open>Concrete inputs\<close>

definition array :: "'a::zero list \<Rightarrow> nat \<Rightarrow> 'a" where
  "array xs i = (if i < length xs then xs ! i else 0)"

text \<open>
  The object the constructor of vtkInternal leaves (lines 71-95); the members it does not
  initialise are given a value here.
\<close>

definition constructed :: vtkInternal where
  "constructed =
     \<lparr>Initialized = False, CellFlag = 0, TextureSize = (\<lambda>i. - 1), BlendMode = OTHER_BLEND,
      ScalarsRange = (\<lambda>i. 0), Bounds = (\<lambda>i. 0),
      Extents = array [2147483647, - 2147483648, 2147483647, - 2147483648,
                       2147483647, - 2147483648],
      StepSize = (\<lambda>i. None), CellScale = (\<lambda>i. 0.0), Scale = None,
      NoiseTextureData = None, NoiseTextureSize = 0, VolumeBuildTime = 0,
      ElapsedDrawTime = 0\<rparr>"

definition boot :: sys where
  "boot = \<lparr>events = [], GlobalTime = 10, Implementation = constructed\<rparr>"

definition scalars_of :: "vtk_type \<Rightarrow> int \<Rightarrow> vtkDataArray" where
  "scalars_of t n = \<lparr>DataType = t, NumberOfComponents = n, Range = array [0, 1]\<rparr>"

text \<open>
  The volume of the spec's end-to-end example (extent 0..9 on each axis, spacing 1,
  origin 0, range 0..1) with scalars of a given type, component count and association.
\<close>

definition image_of :: "vtk_type \<Rightarrow> int \<Rightarrow> int \<Rightarrow> vtkImageData" where
  "image_of t n assoc =
     \<lparr>Extent = array [0, 9, 0, 9, 0, 9], Spacing = array [1, 1, 1], Origin = array [0, 0, 0],
      MTime = 5, Scalars = Some (scalars_of t n), ScalarsAssociation = assoc\<rparr>"

definition flipped_image :: vtkImageData where
  "flipped_image =
     \<lparr>Extent = array [0, 9, 2, 5, 0, 0], Spacing = array [- 1, 2, 1],
      Origin = array [10, 0, - 5], MTime = 5, Scalars = Some (scalars_of VTK_FLOAT 1),
      ScalarsAssociation = 0\<rparr>"

definition mapper_of :: "vtkImageData \<Rightarrow> vtkSinglePassVolumeMapper" where
  "mapper_of img =
     \<lparr>Mapper_Bounds = array [0, 9, 0, 9, 0, 9], Mapper_BlendMode = COMPOSITE_BLEND,
      SampleDistance = 1.0, Input = Some img\<rparr>"

definition volume_with :: "rgb_point list \<Rightarrow> opacity_point list \<Rightarrow> int \<Rightarrow> vtkVolume" where
  "volume_with c opac indep =
     \<lparr>Property = \<lparr>RGBTransferFunction = c, ScalarOpacity = opac,
        IndependentComponents = indep, InterpolationType = 1,
        ScalarOpacityUnitDistance = 1, Shade = 1\<rparr>\<rparr>"

definition camera :: vtkRenderer where
  "camera = \<lparr>CameraPosition = array [0, 0, 30]\<rparr>"

definition driver :: "bool \<Rightarrow> int \<Rightarrow> platform" where
  "driver ndebug maxSize =
     \<lparr>NDEBUG = ndebug, glGetError = (\<lambda>es. 0), GL_MAX_TEXTURE_SIZE = maxSize,
      GL_ARB_texture_float = True,
      EvaluateFunction = (\<lambda>frequency amplitude i j. amplitude * real_of_int (i - j) / 4),
      GetElapsedTime = 0\<rparr>"

text \<open>
  A build with assertions on a driver that reports \<^verbatim>\<open>GL_INVALID_ENUM\<close> once the last
  call is a \<^verbatim>\<open>glTexImage3D\<close> whose format is 0, and no error otherwise.
\<close>

definition GL_INVALID_ENUM :: nat where "GL_INVALID_ENUM = 1280"

definition checking_driver :: platform where
  "checking_driver =
     \<lparr>NDEBUG = False,
      glGetError = (\<lambda>es. case rev es of
                            glTexImage3D f0 w h d f1 f2 # earlier \<Rightarrow>
                              if f1 = GL_0 then GL_INVALID_ENUM else GL_NO_ERROR
                          | _ \<Rightarrow> GL_NO_ERROR),
      GL_MAX_TEXTURE_SIZE = 128, GL_ARB_texture_float = True,
      EvaluateFunction = (\<lambda>frequency amplitude i j. amplitude * real_of_int (i - j) / 4),
      GetElapsedTime = 0\<rparr>"

text \<open>The state GPURender reaches once it has read the range 0..1 of the scalars.\<close>

definition boot_range :: sys where
  "boot_range = boot\<lparr>Implementation := constructed\<lparr>ScalarsRange := array [0, 1]\<rparr>\<rparr>"

section \<open>Properties\<close>

subsection \<open>Basic facts\<close>

lemma emits_Implementation [simp]: "Implementation (emits es s) = Implementation s"
  by (simp add: emits_def)

lemma emit_Implementation [simp]: "Implementation (emit e s) = Implementation s"
  by (simp add: emit_def)

lemma emits_events [simp]: "events (emits es s) = events s @ es"
  by (simp add: emits_def)

lemma emit_events [simp]: "events (emit e s) = events s @ [e]"
  by (simp add: emit_def)

lemma emit_GlobalTime [simp]: "GlobalTime (emit e s) = GlobalTime s"
  by (simp add: emit_def)

lemma emits_GlobalTime [simp]: "GlobalTime (emits es s) = GlobalTime s"
  by (simp add: emits_def)

lemma andThen_Done_iff:
  "andThen m f = Done y t \<longleftrightarrow> (\<exists>x s. m = Done x s \<and> f x s = Done y t)"
  by (cases m) simp_all

lemma andThen_Aborted_iff:
  "andThen m f = Aborted e t \<longleftrightarrow>
     m = Aborted e t \<or> (\<exists>x s. m = Done x s \<and> f x s = Aborted e t)"
  by (cases m) auto

lemma returned_Some_iff: "returned out = Some x \<longleftrightarrow> (\<exists>s. out = Done x s)"
  by (cases out) auto

lemma returned_Done_final: "returned out = Some x \<Longrightarrow> out = Done x (final out)"
  by (cases out) auto

lemma extends_Done [simp]: "extends s (Done x s') \<longleftrightarrow> prefix (events s) (events s')"
  by (simp add: extends_def)

lemma extends_Aborted [simp]: "extends s (Aborted e s') \<longleftrightarrow> prefix (events s) (events s')"
  by (simp add: extends_def)

lemma extends_andThen:
  assumes "extends s m" and "\<And>x s'. extends s' (f x s')"
  shows "extends s (andThen m f)"
proof (cases m)
  case (Done x s1)
  with assms(1) have "prefix (events s) (events s1)" by simp
  moreover from assms(2) have "prefix (events s1) (events (final (f x s1)))"
    by (simp add: extends_def)
  ultimately show ?thesis using Done by (simp add: extends_def)
next
  case (Aborted e s1)
  with assms(1) show ?thesis by simp
qed

lemma extends_weaken:
  "prefix (events s) (events s') \<Longrightarrow> extends s' out \<Longrightarrow> extends s out"
  by (auto simp add: extends_def)

lemma extends_deref [simp]: "extends s (deref x s)"
  by (cases x) (simp_all add: deref_def)

lemma final_assert_that [simp]: "final (assert_that p c s) = s"
  by (simp add: assert_that_def)

lemma final_GL_CHECK_ERRORS [simp]: "final (GL_CHECK_ERRORS p s) = s"
  by (simp add: GL_CHECK_ERRORS_def)

lemma GL_CHECK_ERRORS_NDEBUG: "NDEBUG p \<Longrightarrow> GL_CHECK_ERRORS p s = Done () s"
  by (simp add: GL_CHECK_ERRORS_def assert_that_def)

lemma GL_CHECK_ERRORS_Done: "GL_CHECK_ERRORS p s = Done u s' \<Longrightarrow> s' = s"
  by (simp add: GL_CHECK_ERRORS_def assert_that_def split: if_splits)

lemma GL_CHECK_ERRORS_Aborted:
  "GL_CHECK_ERRORS p s = Aborted e s' \<Longrightarrow> e = AssertionFailed \<and> \<not> NDEBUG p"
  by (simp add: GL_CHECK_ERRORS_def assert_that_def split: if_splits)

lemma extends_GL_CHECK_ERRORS [simp]: "extends s (GL_CHECK_ERRORS p s)"
  by (simp add: extends_def)

subsection \<open>ComputeBounds in point semantics\<close>

text \<open>
  Claim C4. In point semantics (\<open>CellFlag = 0\<close>), for every extent, origin and spacing,
  ComputeBounds sets the two bounds of each axis \<open>i\<close> to the origin plus an end of the
  extent times the spacing, the lower bound taking the upper end of the extent (and the
  upper bound the lower end) exactly when the spacing is negative. On every axis whose
  extent is well ordered (the invariant of the spec's data model: min \<open>\<le>\<close> max) the box has
  \<open>Bounds[2i] \<le> Bounds[2i+1]\<close>, whatever the sign of the spacing. A second call with
  the same input changes nothing.
\<close>

theorem ComputeBounds_point_semantics:
  assumes point: "CellFlag self = 0"
  shows "(\<forall>i<3. let swap = (if Spacing input i < 0 then 1 else 0);
                    B = Bounds (ComputeBounds input self)
                in B (2 * i) = Origin input i + real_of_int (Extent input (2 * i + swap)) * Spacing input i
                 \<and> B (2 * i + 1) = Origin input i + real_of_int (Extent input (2 * i + 1 - swap)) * Spacing input i
                 \<and> (Extent input (2 * i) \<le> Extent input (2 * i + 1) \<longrightarrow> B (2 * i) \<le> B (2 * i + 1)))
         \<and> ComputeBounds input (ComputeBounds input self) = ComputeBounds input self"
proof (intro conjI allI impI)
  fix i :: nat
  assume "i < 3"
  then consider "i = 0" | "i = 1" | "i = 2" by arith
  then show "let swap = (if Spacing input i < 0 then 1 else 0);
                    B = Bounds (ComputeBounds input self)
                in B (2 * i) = Origin input i + real_of_int (Extent input (2 * i + swap)) * Spacing input i
                 \<and> B (2 * i + 1) = Origin input i + real_of_int (Extent input (2 * i + 1 - swap)) * Spacing input i
                 \<and> (Extent input (2 * i) \<le> Extent input (2 * i + 1) \<longrightarrow> B (2 * i) \<le> B (2 * i + 1))"
  proof cases
    case 1
    show ?thesis
      using point
      by (cases "Spacing input 0 < 0")
         (simp_all add: 1 Let_def ComputeBounds_def eval_nat_numeral mult_right_mono
            mult_right_mono_neg)
  next
    case 2
    show ?thesis
      using point
      by (cases "Spacing input 1 < 0")
         (simp_all add: 2 Let_def ComputeBounds_def eval_nat_numeral mult_right_mono
            mult_right_mono_neg)
  next
    case 3
    show ?thesis
      using point
      by (cases "Spacing input 2 < 0")
         (simp_all add: 3 Let_def ComputeBounds_def eval_nat_numeral mult_right_mono
            mult_right_mono_neg)
  qed
next
  show "ComputeBounds input (ComputeBounds input self) = ComputeBounds input self"
    using point by (simp add: ComputeBounds_def Let_def)
qed

theorem ComputeBounds_point_semantics_witness:
  "CellFlag constructed = 0 \<and>
   Extent flipped_image 0 \<le> Extent flipped_image 1 \<and>
   Bounds (ComputeBounds flipped_image constructed) 0 = 1 \<and>
   Bounds (ComputeBounds flipped_image constructed) 1 = 10 \<and>
   Bounds (ComputeBounds flipped_image constructed) 0 \<le> Bounds (ComputeBounds flipped_image constructed) 1 \<and>
   ComputeBounds flipped_image (ComputeBounds flipped_image constructed) = ComputeBounds flipped_image constructed"
proof -
  have p: "CellFlag constructed = 0" by (simp add: constructed_def)
  have e: "Extent flipped_image 0 \<le> Extent flipped_image 1" by (simp add: flipped_image_def array_def)
  note T = ComputeBounds_point_semantics [OF p, of flipped_image]
  from T have b: "ComputeBounds flipped_image (ComputeBounds flipped_image constructed) = ComputeBounds flipped_image constructed"
    by (rule conjunct2)
  from T [THEN conjunct1, rule_format, of 0] e
  have a: "Bounds (ComputeBounds flipped_image constructed) 0 = 1 \<and>
           Bounds (ComputeBounds flipped_image constructed) 1 = 10 \<and>
           Bounds (ComputeBounds flipped_image constructed) 0 \<le> Bounds (ComputeBounds flipped_image constructed) 1"
    by (simp add: flipped_image_def array_def Let_def)
  from a b p e show ?thesis by simp
qed

subsection \<open>ComputeBounds in cell semantics\<close>

lemma ComputeBounds_whole_unroll:
  "ComputeBounds_whole 1 w = w(1 := w 1 - 1, 3 := w 3 - 1, 5 := w 5 - 1)"
  by ((subst ComputeBounds_whole.simps, simp)+, simp add: eval_nat_numeral)

lemma ComputeBounds_whole_lower:
  assumes "i < 3"
  shows "ComputeBounds_whole 1 w (2 * i) = w (2 * i)"
proof -
  from assms consider "i = 0" | "i = 1" | "i = 2" by arith
  then show ?thesis
    using ComputeBounds_whole_unroll [of w]
    by cases (simp_all add: eval_nat_numeral)
qed

lemma ComputeBounds_whole_upper:
  assumes "i < 3"
  shows "ComputeBounds_whole 1 w (2 * i + 1) = w (2 * i + 1) - 1"
proof -
  from assms consider "i = 0" | "i = 1" | "i = 2" by arith
  then show ?thesis
    using ComputeBounds_whole_unroll [of w]
    by cases (simp_all add: eval_nat_numeral)
qed

lemma ComputeBounds_cells_unroll:
  "ComputeBounds_cells 0 w sp orig sw self =
     ComputeBounds_axis 2 w sp orig sw
       (ComputeBounds_axis 1 w sp orig sw (ComputeBounds_axis 0 w sp orig sw self))"
  by ((subst ComputeBounds_cells.simps, simp)+, simp add: eval_nat_numeral)

lemma ComputeBounds_axis_Extents [simp]:
  "Extents (ComputeBounds_axis i w sp orig sw self) = Extents self"
  by (simp add: ComputeBounds_axis_def Let_def)

lemma ComputeBounds_axis_lower:
  assumes "sw i \<le> 1"
  shows "Bounds (ComputeBounds_axis i w sp orig sw self) (2 * i + sw i) =
     (if Extents self (2 * i) = w (2 * i) then orig i
      else orig i + (real_of_int (Extents self (2 * i)) + 0.5) * sp i)"
proof -
  from assms have "2 * i + sw i \<noteq> 2 * i + 1 - sw i" by arith
  then show ?thesis by (simp add: ComputeBounds_axis_def Let_def)
qed

lemma ComputeBounds_axis_upper:
  "Bounds (ComputeBounds_axis i w sp orig sw self) (2 * i + 1 - sw i) =
     (if Extents self (2 * i + 1) = w (2 * i + 1)
      then orig i + (real_of_int (Extents self (2 * i + 1)) + 1.0) * sp i
      else orig i + (real_of_int (Extents self (2 * i + 1)) + 0.5) * sp i)"
  by (simp add: ComputeBounds_axis_def Let_def)

lemma ComputeBounds_axis_other:
  assumes "sw i \<le> 1" and "k \<noteq> 2 * i" and "k \<noteq> 2 * i + 1"
  shows "Bounds (ComputeBounds_axis i w sp orig sw self) k = Bounds self k"
proof -
  from assms have "k \<noteq> 2 * i + sw i" and "k \<noteq> 2 * i + 1 - sw i" by arith+
  then show ?thesis by (simp add: ComputeBounds_axis_def Let_def)
qed

text \<open>The bound the loop leaves at an index is the one the axis of that index wrote.\<close>

lemma ComputeBounds_cells_at:
  assumes sw: "\<forall>j. sw j \<le> 1" and i: "i < 3" and k: "k = 2 * i \<or> k = 2 * i + 1"
  shows "\<exists>self'. Extents self' = Extents self \<and>
           Bounds (ComputeBounds_cells 0 w sp orig sw self) k =
           Bounds (ComputeBounds_axis i w sp orig sw self') k"
proof -
  let ?a0 = "ComputeBounds_axis 0 w sp orig sw self"
  let ?a1 = "ComputeBounds_axis 1 w sp orig sw ?a0"
  from i consider "i = 0" | "i = 1" | "i = 2" by arith
  then show ?thesis
  proof cases
    case 1
    with k have "k \<noteq> 2 * 2" "k \<noteq> 2 * 2 + 1" "k \<noteq> 2 * 1" "k \<noteq> 2 * 1 + 1" by auto
    then have "Bounds (ComputeBounds_cells 0 w sp orig sw self) k = Bounds ?a0 k"
      using sw by (simp add: ComputeBounds_cells_unroll ComputeBounds_axis_other)
    with 1 show ?thesis by (intro exI [of _ self]) simp
  next
    case 2
    with k have "k \<noteq> 2 * 2" "k \<noteq> 2 * 2 + 1" by auto
    then have "Bounds (ComputeBounds_cells 0 w sp orig sw self) k = Bounds ?a1 k"
      using sw by (simp add: ComputeBounds_cells_unroll ComputeBounds_axis_other)
    with 2 show ?thesis by (intro exI [of _ ?a0]) simp
  next
    case 3
    then show ?thesis
      by (intro exI [of _ ?a1]) (simp add: ComputeBounds_cells_unroll)
  qed
qed

lemma ComputeBounds_cell_lower:
  assumes cell: "CellFlag self \<noteq> 0" and i: "i < 3"
  shows "Bounds (ComputeBounds input self) (2 * i + (if Spacing input i < 0 then 1 else 0)) =
         Origin input i"
proof -
  let ?sw = "\<lambda>i::nat. if Spacing input i < 0 then 1 else 0 :: nat"
  let ?w = "ComputeBounds_whole 1 (Extent input)"
  let ?self = "self\<lparr>Extents := Extent input\<rparr>"
  have sw: "\<forall>j. ?sw j \<le> 1" by simp
  have k: "2 * i + ?sw i = 2 * i \<or> 2 * i + ?sw i = 2 * i + 1" by simp
  from ComputeBounds_cells_at [OF sw i k, of ?self ?w "Spacing input" "Origin input"]
  obtain self' where e: "Extents self' = Extents ?self"
    and b: "Bounds (ComputeBounds_cells 0 ?w (Spacing input) (Origin input) ?sw ?self) (2 * i + ?sw i) =
            Bounds (ComputeBounds_axis i ?w (Spacing input) (Origin input) ?sw self') (2 * i + ?sw i)"
    by blast
  have "Bounds (ComputeBounds_axis i ?w (Spacing input) (Origin input) ?sw self') (2 * i + ?sw i) =
        Origin input i"
    using ComputeBounds_axis_lower [of ?sw i ?w "Spacing input" "Origin input" self'] e
      ComputeBounds_whole_lower [OF i, of "Extent input"]
    by simp
  with b cell show ?thesis
    by (simp add: ComputeBounds_def Let_def)
qed

lemma ComputeBounds_cell_upper:
  assumes cell: "CellFlag self \<noteq> 0" and i: "i < 3"
  shows "Bounds (ComputeBounds input self) (2 * i + 1 - (if Spacing input i < 0 then 1 else 0)) =
         Origin input i + (real_of_int (Extent input (2 * i + 1)) + 0.5) * Spacing input i"
proof -
  let ?sw = "\<lambda>i::nat. if Spacing input i < 0 then 1 else 0 :: nat"
  let ?w = "ComputeBounds_whole 1 (Extent input)"
  let ?self = "self\<lparr>Extents := Extent input\<rparr>"
  have sw: "\<forall>j. ?sw j \<le> 1" by simp
  have k: "2 * i + 1 - ?sw i = 2 * i \<or> 2 * i + 1 - ?sw i = 2 * i + 1" by simp
  from ComputeBounds_cells_at [OF sw i k, of ?self ?w "Spacing input" "Origin input"]
  obtain self' where e: "Extents self' = Extents ?self"
    and b: "Bounds (ComputeBounds_cells 0 ?w (Spacing input) (Origin input) ?sw ?self) (2 * i + 1 - ?sw i) =
            Bounds (ComputeBounds_axis i ?w (Spacing input) (Origin input) ?sw self') (2 * i + 1 - ?sw i)"
    by blast
  have "Bounds (ComputeBounds_axis i ?w (Spacing input) (Origin input) ?sw self') (2 * i + 1 - ?sw i) =
        Origin input i + (real_of_int (Extent input (2 * i + 1)) + 0.5) * Spacing input i"
    using ComputeBounds_axis_upper [of i ?w "Spacing input" "Origin input" ?sw self'] e
      ComputeBounds_whole_upper [OF i, of "Extent input"]
    by simp
  with b cell show ?thesis
    by (simp add: ComputeBounds_def Let_def)
qed

text \<open>
  Claim C5. In cell semantics the claim puts a boundary that coincides with the outer edge
  of the whole dataset at that edge, with no half-cell offset. ComputeBounds reads both
  \<open>Extents\<close> and \<open>wholeTextureExtent\<close> from the same input and decrements only the upper
  ends of the latter, so the comparison of the upper ends never succeeds: for the volume
  with extent 0..9, spacing 1 and origin 0, which is the whole dataset, the upper bound of
  the first axis is 9.5, half a cell beyond the outer edge. The lower comparison always
  succeeds and takes the origin alone: a block with extent 2..5 and spacing 2 on its
  second axis gets the lower bound 0, not 4 (and the upper bound 11).
\<close>

theorem ComputeBounds_cell_whole_extent:
  "Bounds (ComputeBounds (image_of VTK_FLOAT 1 1) (constructed\<lparr>CellFlag := 1\<rparr>)) 0 = 0 \<and>
   Bounds (ComputeBounds (image_of VTK_FLOAT 1 1) (constructed\<lparr>CellFlag := 1\<rparr>)) 1 = 9 + 1 / 2 \<and>
   Bounds (ComputeBounds (flipped_image\<lparr>ScalarsAssociation := 1\<rparr>) (constructed\<lparr>CellFlag := 1\<rparr>)) 2 = 0 \<and>
   Bounds (ComputeBounds (flipped_image\<lparr>ScalarsAssociation := 1\<rparr>) (constructed\<lparr>CellFlag := 1\<rparr>)) 3 = 11"
proof -
  have c: "CellFlag (constructed\<lparr>CellFlag := 1\<rparr>) \<noteq> 0" by simp
  show ?thesis
    using ComputeBounds_cell_lower [OF c, of 0 "image_of VTK_FLOAT 1 1"]
      ComputeBounds_cell_upper [OF c, of 0 "image_of VTK_FLOAT 1 1"]
      ComputeBounds_cell_lower [OF c, of 1 "flipped_image\<lparr>ScalarsAssociation := 1\<rparr>"]
      ComputeBounds_cell_upper [OF c, of 1 "flipped_image\<lparr>ScalarsAssociation := 1\<rparr>"]
    by (simp add: image_of_def flipped_image_def array_def)
qed

subsection \<open>The shift and the scale of LoadVolume\<close>

lemmas type_max_defs =
  VTK_UNSIGNED_CHAR_MAX_def VTK_SIGNED_CHAR_MAX_def VTK_UNSIGNED_SHORT_MAX_def
  VTK_SHORT_MAX_def VTK_UNSIGNED_INT_MAX_def VTK_INT_MAX_def

text \<open>The encoder on one supported type: the result, and the two ends of the range.\<close>

lemma LoadVolume_encoder_supported:
  assumes single: "NumberOfComponents scalars = 1"
    and range: "ScalarsRange (Implementation s) 0 < ScalarsRange (Implementation s) 1"
    and supported: "supported_single (DataType scalars)"
  shows "\<exists>e k. LoadVolume_encoder p scalars s = Done e s \<and> scale e = Some k \<and> 0 < k \<and>
     encoded (DataType scalars) (shift e) k (ScalarsRange (Implementation s) 0) = 0 \<and>
     encoded (DataType scalars) (shift e) k (ScalarsRange (Implementation s) 1) =
       (if DataType scalars = VTK_SIGNED_CHAR then 254 / 255
        else if DataType scalars = VTK_SHORT then 65534 / 65535
        else if DataType scalars = VTK_INT then 4294967294 / 4294967295
        else 1)"
proof -
  let ?a = "ScalarsRange (Implementation s) 0" and ?b = "ScalarsRange (Implementation s) 1"
  from range have ne: "?b \<noteq> ?a" and pos: "0 < ?b - ?a" by simp_all
  from supported consider
      "DataType scalars = VTK_FLOAT" | "DataType scalars = VTK_UNSIGNED_CHAR"
    | "DataType scalars = VTK_SIGNED_CHAR" | "DataType scalars = VTK_SHORT"
    | "DataType scalars = VTK_UNSIGNED_SHORT" | "DataType scalars = VTK_INT"
    | "DataType scalars = VTK_UNSIGNED_INT"
    by (auto simp add: supported_single_def)
  then show ?thesis
  proof cases
    case 1
    define k where "k = 1 / (?b - ?a)"
    define sh where "sh = - ?a"
    from pos have kpos: "0 < k" by (simp add: k_def)
    from single ne 1 obtain e where enc: "LoadVolume_encoder p scalars s = Done e s"
      and e: "scale e = Some k" "shift e = sh"
      by (simp add: LoadVolume_encoder_def LoadVolume_locals_def Let_def fdiv_def
          type_max_defs k_def sh_def)
    have lo: "encoded VTK_FLOAT sh k ?a = 0"
      by (simp add: encoded_def normalized_raw_def sh_def field_simps)
    from ne have hi: "encoded VTK_FLOAT sh k ?b = 1"
      by (simp add: encoded_def normalized_raw_def sh_def k_def field_simps)
    from enc e kpos lo hi 1 show ?thesis by simp
  next
    case 2
    define k where "k = 255 / (?b - ?a)"
    define sh where "sh = - ?a / 255"
    from pos have kpos: "0 < k" by (simp add: k_def)
    from single ne 2 obtain e where enc: "LoadVolume_encoder p scalars s = Done e s"
      and e: "scale e = Some k" "shift e = sh"
      by (simp add: LoadVolume_encoder_def LoadVolume_locals_def Let_def fdiv_def
          type_max_defs k_def sh_def)
    have lo: "encoded VTK_UNSIGNED_CHAR sh k ?a = 0"
      by (simp add: encoded_def normalized_raw_def sh_def field_simps)
    from ne have hi: "encoded VTK_UNSIGNED_CHAR sh k ?b = 1"
      by (simp add: encoded_def normalized_raw_def sh_def k_def field_simps)
    from enc e kpos lo hi 2 show ?thesis by simp
  next
    case 3
    define k where "k = 127 / (?b - ?a)"
    define sh where "sh = - (2 * ?a + 1) / 255"
    from pos have kpos: "0 < k" by (simp add: k_def)
    from single ne 3 obtain e where enc: "LoadVolume_encoder p scalars s = Done e s"
      and e: "scale e = Some k" "shift e = sh"
      by (simp add: LoadVolume_encoder_def LoadVolume_locals_def Let_def fdiv_def
          type_max_defs k_def sh_def)
    have lo: "encoded VTK_SIGNED_CHAR sh k ?a = 0"
      by (simp add: encoded_def normalized_raw_def sh_def field_simps)
    from ne have hi: "encoded VTK_SIGNED_CHAR sh k ?b = 254 / 255"
      by (simp add: encoded_def normalized_raw_def sh_def k_def field_simps)
    from enc e kpos lo hi 3 show ?thesis by simp
  next
    case 4
    define k where "k = 32767 / (?b - ?a)"
    define sh where "sh = - (2 * ?a + 1) / 65535"
    from pos have kpos: "0 < k" by (simp add: k_def)
    from single ne 4 obtain e where enc: "LoadVolume_encoder p scalars s = Done e s"
      and e: "scale e = Some k" "shift e = sh"
      by (simp add: LoadVolume_encoder_def LoadVolume_locals_def Let_def fdiv_def
          type_max_defs k_def sh_def)
    have lo: "encoded VTK_SHORT sh k ?a = 0"
      by (simp add: encoded_def normalized_raw_def sh_def field_simps)
    from ne have hi: "encoded VTK_SHORT sh k ?b = 65534 / 65535"
      by (simp add: encoded_def normalized_raw_def sh_def k_def field_simps)
    from enc e kpos lo hi 4 show ?thesis by simp
  next
    case 5
    define k where "k = 65535 / (?b - ?a)"
    define sh where "sh = - ?a / 65535"
    from pos have kpos: "0 < k" by (simp add: k_def)
    from single ne 5 obtain e where enc: "LoadVolume_encoder p scalars s = Done e s"
      and e: "scale e = Some k" "shift e = sh"
      by (simp add: LoadVolume_encoder_def LoadVolume_locals_def Let_def fdiv_def
          type_max_defs k_def sh_def)
    have lo: "encoded VTK_UNSIGNED_SHORT sh k ?a = 0"
      by (simp add: encoded_def normalized_raw_def sh_def field_simps)
    from ne have hi: "encoded VTK_UNSIGNED_SHORT sh k ?b = 1"
      by (simp add: encoded_def normalized_raw_def sh_def k_def field_simps)
    from enc e kpos lo hi 5 show ?thesis by simp
  next
    case 6
    define k where "k = 2147483647 / (?b - ?a)"
    define sh where "sh = - (2 * ?a + 1) / 4294967295"
    from pos have kpos: "0 < k" by (simp add: k_def)
    from single ne 6 obtain e where enc: "LoadVolume_encoder p scalars s = Done e s"
      and e: "scale e = Some k" "shift e = sh"
      by (simp add: LoadVolume_encoder_def LoadVolume_locals_def Let_def fdiv_def
          type_max_defs k_def sh_def)
    have lo: "encoded VTK_INT sh k ?a = 0"
      by (simp add: encoded_def normalized_raw_def sh_def field_simps)
    from ne have hi: "encoded VTK_INT sh k ?b = 4294967294 / 4294967295"
      by (simp add: encoded_def normalized_raw_def sh_def k_def field_simps)
    from enc e kpos lo hi 6 show ?thesis by simp
  next
    case 7
    define k where "k = 4294967295 / (?b - ?a)"
    define sh where "sh = - ?a / 4294967295"
    from pos have kpos: "0 < k" by (simp add: k_def)
    from single ne 7 obtain e where enc: "LoadVolume_encoder p scalars s = Done e s"
      and e: "scale e = Some k" "shift e = sh"
      by (simp add: LoadVolume_encoder_def LoadVolume_locals_def Let_def fdiv_def
          type_max_defs k_def sh_def)
    have lo: "encoded VTK_UNSIGNED_INT sh k ?a = 0"
      by (simp add: encoded_def normalized_raw_def sh_def field_simps)
    from ne have hi: "encoded VTK_UNSIGNED_INT sh k ?b = 1"
      by (simp add: encoded_def normalized_raw_def sh_def k_def field_simps)
    from enc e kpos lo hi 7 show ?thesis by simp
  qed
qed

text \<open>
  Claim C3. For every supported single-component scalar type and every range with
  \<open>ScalarsRange[1] > ScalarsRange[0]\<close>, the switch of LoadVolume returns a shift and a
  scale with \<open>scale > 0\<close>; the map \<open>(normalized_raw + shift) * scale\<close> sends the lower end
  of the range to 0 and the upper end to within \<open>1/255\<close> of 1, the largest normalized
  value (to 1 exactly for the float and the unsigned types, to \<open>1 - 1/(2^b - 1)\<close> for the
  signed \<open>b\<close>-bit types).
\<close>

theorem LoadVolume_encoder_scale:
  assumes single: "NumberOfComponents scalars = 1"
    and range: "ScalarsRange (Implementation s) 0 < ScalarsRange (Implementation s) 1"
    and supported: "supported_single (DataType scalars)"
  shows "\<exists>e k. LoadVolume_encoder p scalars s = Done e s \<and> scale e = Some k \<and> 0 < k \<and>
     encoded (DataType scalars) (shift e) k (ScalarsRange (Implementation s) 0) = 0 \<and>
     \<bar>encoded (DataType scalars) (shift e) k (ScalarsRange (Implementation s) 1) - 1\<bar> \<le> 1 / 255 \<and>
     (\<not> signed_integer (DataType scalars) \<longrightarrow>
        encoded (DataType scalars) (shift e) k (ScalarsRange (Implementation s) 1) = 1)"
proof -
  from LoadVolume_encoder_supported [OF assms, of p]
  obtain e k where *: "LoadVolume_encoder p scalars s = Done e s" "scale e = Some k" "0 < k"
     "encoded (DataType scalars) (shift e) k (ScalarsRange (Implementation s) 0) = 0"
     "encoded (DataType scalars) (shift e) k (ScalarsRange (Implementation s) 1) =
       (if DataType scalars = VTK_SIGNED_CHAR then 254 / 255
        else if DataType scalars = VTK_SHORT then 65534 / 65535
        else if DataType scalars = VTK_INT then 4294967294 / 4294967295
        else 1)"
    by blast
  from *(5) have "\<bar>encoded (DataType scalars) (shift e) k (ScalarsRange (Implementation s) 1) - 1\<bar> \<le> 1 / 255"
    by (simp split: if_splits)
  moreover from *(5) have "\<not> signed_integer (DataType scalars) \<longrightarrow>
        encoded (DataType scalars) (shift e) k (ScalarsRange (Implementation s) 1) = 1"
    by (simp add: signed_integer_def)
  ultimately show ?thesis using *(1-4) by blast
qed

theorem LoadVolume_encoder_scale_witness:
  "NumberOfComponents (scalars_of VTK_SHORT 1) = 1 \<and>
   ScalarsRange (Implementation boot_range) 0 < ScalarsRange (Implementation boot_range) 1 \<and>
   supported_single (DataType (scalars_of VTK_SHORT 1)) \<and>
   (\<exists>e k. LoadVolume_encoder (driver True 128) (scalars_of VTK_SHORT 1) boot_range = Done e boot_range \<and>
      scale e = Some k \<and> 0 < k \<and>
      encoded VTK_SHORT (shift e) k 0 = 0 \<and> \<bar>encoded VTK_SHORT (shift e) k 1 - 1\<bar> \<le> 1 / 255)"
proof -
  have h: "NumberOfComponents (scalars_of VTK_SHORT 1) = 1"
    "ScalarsRange (Implementation boot_range) 0 < ScalarsRange (Implementation boot_range) 1"
    "supported_single (DataType (scalars_of VTK_SHORT 1))"
    by (simp_all add: scalars_of_def boot_range_def boot_def array_def supported_single_def)
  from LoadVolume_encoder_scale [OF h, of "driver True 128"]
  have "\<exists>e k. LoadVolume_encoder (driver True 128) (scalars_of VTK_SHORT 1) boot_range = Done e boot_range \<and>
      scale e = Some k \<and> 0 < k \<and>
      encoded VTK_SHORT (shift e) k 0 = 0 \<and> \<bar>encoded VTK_SHORT (shift e) k 1 - 1\<bar> \<le> 1 / 255"
    by (auto simp add: scalars_of_def boot_range_def boot_def array_def)
  with h show ?thesis by simp
qed

subsection \<open>The noise texture\<close>






subsection \<open>Seeding the transfer functions\<close>

lemma UpdateColorTransferFunction_returned:
  "returned (UpdateColorTransferFunction (Some v) n s) =
     (if n = 1
      then Some (0, Some (with_color
             (if RGBTransferFunction (Property v) = []
              then [(ScalarsRange (Implementation s) 0, 0, 0, 0),
                    (ScalarsRange (Implementation s) 1, 1, 1, 1)]
              else RGBTransferFunction (Property v)) v))
      else Some (1, Some v))"
  by (simp add: UpdateColorTransferFunction_def deref_def Let_def GetSize_def AddRGBPoint_def
      with_color_def)

lemma UpdateOpacityTransferFunction_returned:
  "returned (UpdateOpacityTransferFunction m (Some v) n level s) =
     (if n = 1
      then Some (0, Some (with_opacity
             (if ScalarOpacity (Property v) = []
              then [(ScalarsRange (Implementation s) 0, 0),
                    (ScalarsRange (Implementation s) 1, 0.5)]
              else ScalarOpacity (Property v)) v))
      else Some (1, Some v))"
  by (simp add: UpdateOpacityTransferFunction_def Let_def GetSize_def AddPoint_def
      with_opacity_def)

lemma UpdateColorTransferFunction_one:
  "UpdateColorTransferFunction (Some v) 1 s =
     Done (0, Some (with_color
            (if GetSize (RGBTransferFunction (Property v)) < 1
             then RGBTransferFunction (Property v) @
                    [(ScalarsRange (Implementation s) 0, 0, 0, 0),
                     (ScalarsRange (Implementation s) 1, 1, 1, 1)]
             else RGBTransferFunction (Property v)) v))
       (emits [RGBTable_Update
                (if GetSize (RGBTransferFunction (Property v)) < 1
                 then RGBTransferFunction (Property v) @
                        [(ScalarsRange (Implementation s) 0, 0, 0, 0),
                         (ScalarsRange (Implementation s) 1, 1, 1, 1)]
                 else RGBTransferFunction (Property v))
                (ScalarsRange (Implementation s) 0) (ScalarsRange (Implementation s) 1)
                (InterpolationType (Property v) = VTK_LINEAR_INTERPOLATION),
               glActiveTexture_0] s)"
  by (simp add: UpdateColorTransferFunction_def deref_def Let_def AddRGBPoint_def
      with_color_def emits_def emit_def)

lemma UpdateOpacityTransferFunction_one:
  "UpdateOpacityTransferFunction m (Some v) 1 level s =
     Done (0, Some (with_opacity
            (if GetSize (ScalarOpacity (Property v)) < 1
             then ScalarOpacity (Property v) @
                    [(ScalarsRange (Implementation s) 0, 0),
                     (ScalarsRange (Implementation s) 1, 0.5)]
             else ScalarOpacity (Property v)) v))
       (emits [OpacityTable_Update level
                (if GetSize (ScalarOpacity (Property v)) < 1
                 then ScalarOpacity (Property v) @
                        [(ScalarsRange (Implementation s) 0, 0),
                         (ScalarsRange (Implementation s) 1, 0.5)]
                 else ScalarOpacity (Property v))
                (BlendMode (Implementation s)) (SampleDistance m)
                (ScalarsRange (Implementation s) 0) (ScalarsRange (Implementation s) 1)
                (ScalarOpacityUnitDistance (Property v))
                (InterpolationType (Property v) = VTK_LINEAR_INTERPOLATION),
               glActiveTexture_0] s)"
  by (simp add: UpdateOpacityTransferFunction_def Let_def AddPoint_def
      with_opacity_def emits_def emit_def)

text \<open>
  Claim C7, amended. Called for one scalar component, the table updates append exactly
  two default control points, \<open>(range_min, black)\<close> and \<open>(range_max, white)\<close> to a colour
  function and \<open>(range_min, 0)\<close> and \<open>(range_max, 0.5)\<close> to an opacity function, when the
  function has no control point (\<^verbatim>\<open>GetSize() < 1\<close>), and leave a function with at least
  one point as it is. The seeding comes before the sampling: the one table update of the
  call (\<^verbatim>\<open>RGBTable->Update\<close>, \<^verbatim>\<open>OpacityTables->GetTable(level)->Update\<close>) is given
  the function with the default points in it, and nothing else is done but to make
  texture unit 0 active again. After a call for one component the function has a point,
  so the seeding happens at most once; on every call the old points stay, in their
  order, at the front.
\<close>

theorem transfer_functions_seeded_when_empty:
  "UpdateColorTransferFunction (Some v) 1 s =
     Done (0, Some (with_color
            (if GetSize (RGBTransferFunction (Property v)) < 1
             then RGBTransferFunction (Property v) @
                    [(ScalarsRange (Implementation s) 0, 0, 0, 0),
                     (ScalarsRange (Implementation s) 1, 1, 1, 1)]
             else RGBTransferFunction (Property v)) v))
       (emits [RGBTable_Update
                (if GetSize (RGBTransferFunction (Property v)) < 1
                 then RGBTransferFunction (Property v) @
                        [(ScalarsRange (Implementation s) 0, 0, 0, 0),
                         (ScalarsRange (Implementation s) 1, 1, 1, 1)]
                 else RGBTransferFunction (Property v))
                (ScalarsRange (Implementation s) 0) (ScalarsRange (Implementation s) 1)
                (InterpolationType (Property v) = VTK_LINEAR_INTERPOLATION),
               glActiveTexture_0] s) \<and>
   UpdateOpacityTransferFunction m (Some v) 1 level s =
     Done (0, Some (with_opacity
            (if GetSize (ScalarOpacity (Property v)) < 1
             then ScalarOpacity (Property v) @
                    [(ScalarsRange (Implementation s) 0, 0),
                     (ScalarsRange (Implementation s) 1, 0.5)]
             else ScalarOpacity (Property v)) v))
       (emits [OpacityTable_Update level
                (if GetSize (ScalarOpacity (Property v)) < 1
                 then ScalarOpacity (Property v) @
                        [(ScalarsRange (Implementation s) 0, 0),
                         (ScalarsRange (Implementation s) 1, 0.5)]
                 else ScalarOpacity (Property v))
                (BlendMode (Implementation s)) (SampleDistance m)
                (ScalarsRange (Implementation s) 0) (ScalarsRange (Implementation s) 1)
                (ScalarOpacityUnitDistance (Property v))
                (InterpolationType (Property v) = VTK_LINEAR_INTERPOLATION),
               glActiveTexture_0] s) \<and>
   (\<forall>n r v'. returned (UpdateColorTransferFunction (Some v) n s) = Some (r, Some v') \<longrightarrow>
      prefix (RGBTransferFunction (Property v)) (RGBTransferFunction (Property v')) \<and>
      (n = 1 \<longrightarrow> 1 \<le> GetSize (RGBTransferFunction (Property v')))) \<and>
   (\<forall>n r v'. returned (UpdateOpacityTransferFunction m (Some v) n level s) = Some (r, Some v') \<longrightarrow>
      prefix (ScalarOpacity (Property v)) (ScalarOpacity (Property v')) \<and>
      (n = 1 \<longrightarrow> 1 \<le> GetSize (ScalarOpacity (Property v'))))"
proof (intro conjI)
  show "UpdateColorTransferFunction (Some v) 1 s =
     Done (0, Some (with_color
            (if GetSize (RGBTransferFunction (Property v)) < 1
             then RGBTransferFunction (Property v) @
                    [(ScalarsRange (Implementation s) 0, 0, 0, 0),
                     (ScalarsRange (Implementation s) 1, 1, 1, 1)]
             else RGBTransferFunction (Property v)) v))
       (emits [RGBTable_Update
                (if GetSize (RGBTransferFunction (Property v)) < 1
                 then RGBTransferFunction (Property v) @
                        [(ScalarsRange (Implementation s) 0, 0, 0, 0),
                         (ScalarsRange (Implementation s) 1, 1, 1, 1)]
                 else RGBTransferFunction (Property v))
                (ScalarsRange (Implementation s) 0) (ScalarsRange (Implementation s) 1)
                (InterpolationType (Property v) = VTK_LINEAR_INTERPOLATION),
               glActiveTexture_0] s)"
    by (rule UpdateColorTransferFunction_one)
  show "UpdateOpacityTransferFunction m (Some v) 1 level s =
     Done (0, Some (with_opacity
            (if GetSize (ScalarOpacity (Property v)) < 1
             then ScalarOpacity (Property v) @
                    [(ScalarsRange (Implementation s) 0, 0),
                     (ScalarsRange (Implementation s) 1, 0.5)]
             else ScalarOpacity (Property v)) v))
       (emits [OpacityTable_Update level
                (if GetSize (ScalarOpacity (Property v)) < 1
                 then ScalarOpacity (Property v) @
                        [(ScalarsRange (Implementation s) 0, 0),
                         (ScalarsRange (Implementation s) 1, 0.5)]
                 else ScalarOpacity (Property v))
                (BlendMode (Implementation s)) (SampleDistance m)
                (ScalarsRange (Implementation s) 0) (ScalarsRange (Implementation s) 1)
                (ScalarOpacityUnitDistance (Property v))
                (InterpolationType (Property v) = VTK_LINEAR_INTERPOLATION),
               glActiveTexture_0] s)"
    by (rule UpdateOpacityTransferFunction_one)
  show "\<forall>n r v'. returned (UpdateColorTransferFunction (Some v) n s) = Some (r, Some v') \<longrightarrow>
      prefix (RGBTransferFunction (Property v)) (RGBTransferFunction (Property v')) \<and>
      (n = 1 \<longrightarrow> 1 \<le> GetSize (RGBTransferFunction (Property v')))"
    by (auto simp add: UpdateColorTransferFunction_returned GetSize_def with_color_def Suc_le_eq
        split: if_splits)
  show "\<forall>n r v'. returned (UpdateOpacityTransferFunction m (Some v) n level s) = Some (r, Some v') \<longrightarrow>
      prefix (ScalarOpacity (Property v)) (ScalarOpacity (Property v')) \<and>
      (n = 1 \<longrightarrow> 1 \<le> GetSize (ScalarOpacity (Property v')))"
    by (auto simp add: UpdateOpacityTransferFunction_returned GetSize_def with_opacity_def
        Suc_le_eq split: if_splits)
qed

theorem transfer_functions_seeded_when_empty_witness:
  "GetSize (RGBTransferFunction (Property (volume_with [] [] 1))) < 1 \<and>
   returned (UpdateColorTransferFunction (Some (volume_with [] [] 1)) 1 boot_range) =
     Some (0, Some (volume_with [(0, 0, 0, 0), (1, 1, 1, 1)] [] 1)) \<and>
   new_events boot_range (final (UpdateColorTransferFunction (Some (volume_with [] [] 1)) 1
     boot_range)) =
     [RGBTable_Update [(0, 0, 0, 0), (1, 1, 1, 1)] 0 1 True, glActiveTexture_0] \<and>
   new_events boot_range (final (UpdateOpacityTransferFunction (mapper_of (image_of VTK_FLOAT 1 0))
     (Some (volume_with [] [] 1)) 1 0 boot_range)) =
     [OpacityTable_Update 0 [(0, 0), (1, 1 / 2)] OTHER_BLEND 1 0 1 1 True, glActiveTexture_0] \<and>
   returned (UpdateColorTransferFunction (Some (volume_with [(0, 0, 0, 0), (1, 1, 1, 1)] [] 1)) 1
     boot_range) =
     Some (0, Some (volume_with [(0, 0, 0, 0), (1, 1, 1, 1)] [] 1)) \<and>
   new_events boot_range (final (UpdateColorTransferFunction
     (Some (volume_with [(0, 0, 0, 0), (1, 1, 1, 1)] [] 1)) 1 boot_range)) =
     [RGBTable_Update [(0, 0, 0, 0), (1, 1, 1, 1)] 0 1 True, glActiveTexture_0]"
  using transfer_functions_seeded_when_empty [of "volume_with [] [] 1" boot_range
      "mapper_of (image_of VTK_FLOAT 1 0)" 0]
    transfer_functions_seeded_when_empty [of "volume_with [(0, 0, 0, 0), (1, 1, 1, 1)] [] 1"
      boot_range "mapper_of (image_of VTK_FLOAT 1 0)" 0]
  by (simp add: volume_with_def boot_range_def boot_def array_def GetSize_def with_color_def
      with_opacity_def new_events_def constructed_def mapper_of_def VTK_LINEAR_INTERPOLATION_def)

text \<open>
  Claim C7 as stated fails for a function with exactly one control point: it has fewer
  than two points and both updates leave it as it is.
\<close>

theorem one_point_function_not_seeded:
  "GetSize (RGBTransferFunction (Property (volume_with [(1 / 2, 1, 0, 0)] [(1 / 2, 1)] 1))) < 2 \<and>
   GetSize (ScalarOpacity (Property (volume_with [(1 / 2, 1, 0, 0)] [(1 / 2, 1)] 1))) < 2 \<and>
   returned (UpdateColorTransferFunction (Some (volume_with [(1 / 2, 1, 0, 0)] [(1 / 2, 1)] 1)) 1 boot) =
     Some (0, Some (volume_with [(1 / 2, 1, 0, 0)] [(1 / 2, 1)] 1)) \<and>
   returned (UpdateOpacityTransferFunction (mapper_of (image_of VTK_FLOAT 1 0))
               (Some (volume_with [(1 / 2, 1, 0, 0)] [(1 / 2, 1)] 1)) 1 0 boot) =
     Some (0, Some (volume_with [(1 / 2, 1, 0, 0)] [(1 / 2, 1)] 1))"
  by (simp add: UpdateColorTransferFunction_returned UpdateOpacityTransferFunction_returned
      volume_with_def GetSize_def with_color_def with_opacity_def)

subsection \<open>ValidateRender and Render\<close>

lemma ValidateRender_type_cases:
  "ValidateRender_type g t s =
     (if t = VTK_CHAR \<or> t = VTK_BIT \<or> t = VTK_ID_TYPE \<or> t = VTK_STRING
      then Done 0 (emit (vtkErrorMacro
        (if t = VTK_CHAR then msg_VTK_CHAR
         else if t = VTK_BIT then msg_VTK_BIT
         else if t = VTK_ID_TYPE then msg_VTK_ID_TYPE
         else msg_VTK_STRING)) s)
      else Done g s)"
  by (cases t) (simp_all add: ValidateRender_type_def)

lemma ValidateRender_validation:
  "validation m ren vol s (ValidateRender m ren vol s)"
proof (cases ren)
  case None
  then show ?thesis
    by (simp add: validation_def ValidateRender_def accepted_def new_events_def is_error_def)
next
  case r: (Some r)
  show ?thesis
  proof (cases vol)
    case None
    with r show ?thesis
      by (simp add: validation_def ValidateRender_def accepted_def new_events_def is_error_def)
  next
    case v: (Some v)
    show ?thesis
    proof (cases "Input m")
      case None
      with r v show ?thesis
        by (simp add: validation_def ValidateRender_def accepted_def new_events_def is_error_def)
    next
      case i: (Some img)
      show ?thesis
      proof (cases "Scalars img")
        case None
        with r v i show ?thesis
          by (simp add: validation_def ValidateRender_def accepted_def new_events_def is_error_def
              deref_def GetScalars_def emit_def)
      next
        case a: (Some a)
        note defs = validation_def ValidateRender_def accepted_def new_events_def is_error_def
              deref_def GetScalars_def emit_def ValidateRender_type_cases
        show ?thesis
        proof (cases "ScalarsAssociation img = 2")
          case True
          with r v i a show ?thesis by (simp add: defs Let_def)
        next
          case f: False
          show ?thesis
          proof (cases "DataType a = VTK_CHAR \<or> DataType a = VTK_BIT \<or> DataType a = VTK_ID_TYPE \<or> DataType a = VTK_STRING")
            case True
            with r v i a f show ?thesis by (auto simp add: defs Let_def)
          next
            case t: False
            from r v i a f t show ?thesis
              by (cases "Mapper_BlendMode m"; cases "NumberOfComponents a = 1";
                  cases "NumberOfComponents a = 4"; simp add: defs Let_def)
          qed
        qed
      qed
    qed
  qed
qed

subsection \<open>LoadVolume and the build time\<close>

lemma LoadVolume_sizes_fields [simp]:
  "VolumeBuildTime (LoadVolume_sizes i self) = VolumeBuildTime self"
  by (induction i self rule: LoadVolume_sizes.induct) (subst LoadVolume_sizes.simps, simp)

text \<open>The switch of LoadVolume returns or fails an assertion; it only adds a diagnostic.\<close>

lemma LoadVolume_encoder_cases:
  "(\<exists>e. LoadVolume_encoder p a s = Done e s) \<or>
   LoadVolume_encoder p a s = Done LoadVolume_locals (emit (cerr msg_scalar_type) s) \<or>
   (\<not> NDEBUG p \<and> LoadVolume_encoder p a s = Aborted AssertionFailed s)"
  by (cases "DataType a")
     (simp_all add: LoadVolume_encoder_def Let_def impossible_case_def assert_that_def)

lemma LoadVolume_encoder_final:
  "Implementation (final (LoadVolume_encoder p a s)) = Implementation s \<and>
   GlobalTime (final (LoadVolume_encoder p a s)) = GlobalTime s \<and>
   prefix (events s) (events (final (LoadVolume_encoder p a s)))"
  using LoadVolume_encoder_cases [of p a s] by auto

lemma LoadVolume_encoder_NDEBUG:
  "NDEBUG p \<Longrightarrow> returned (LoadVolume_encoder p a s) \<noteq> None"
  using LoadVolume_encoder_cases [of p a s] by auto

lemma LoadVolume_encoder_Aborted:
  "LoadVolume_encoder p a s = Aborted e s' \<Longrightarrow> e = AssertionFailed \<and> \<not> NDEBUG p"
  using LoadVolume_encoder_cases [of p a s] by auto

lemma LoadVolume_Done:
  assumes "LoadVolume p img a s = Done r s'"
  shows "r = True \<and> GlobalTime s' = Suc (GlobalTime s) \<and>
         VolumeBuildTime (Implementation s') = Suc (GlobalTime s) \<and>
         prefix (events s) (events s')"
proof -
  from assms obtain u2 s2 e s3 u5 s5 where
    c1: "GL_CHECK_ERRORS p (emits LoadVolume_texture s) = Done u2 s2" and
    enc: "LoadVolume_encoder p a s2 = Done e s3" and
    c2: "GL_CHECK_ERRORS p
           (emit (glTexImage3D (internalFormat e)
              (TextureSize (LoadVolume_sizes 0 ((Implementation s3)\<lparr>Scale := scale e, Extents := Extent img\<rparr>)) 0)
              (TextureSize (LoadVolume_sizes 0 ((Implementation s3)\<lparr>Scale := scale e, Extents := Extent img\<rparr>)) 1)
              (TextureSize (LoadVolume_sizes 0 ((Implementation s3)\<lparr>Scale := scale e, Extents := Extent img\<rparr>)) 2)
              (format e) (type e))
             (s3\<lparr>Implementation := LoadVolume_sizes 0 ((Implementation s3)\<lparr>Scale := scale e, Extents := Extent img\<rparr>)\<rparr>))
          = Done u5 s5" and
    fin: "Done r s' = (let (t, s6) = Modified s5
            in Done True (s6\<lparr>Implementation := (Implementation s6)\<lparr>VolumeBuildTime := t\<rparr>\<rparr>))"
    by (auto simp add: LoadVolume_def Let_def andThen_Done_iff)
  from c1 have s2: "s2 = emits LoadVolume_texture s" by (rule GL_CHECK_ERRORS_Done)
  from LoadVolume_encoder_final [of p a s2] enc
  have s3: "GlobalTime s3 = GlobalTime s2" "prefix (events s2) (events s3)" by simp_all
  from c2 [THEN GL_CHECK_ERRORS_Done]
  have s5: "GlobalTime s5 = GlobalTime s3" "prefix (events s3) (events s5)" by simp_all
  from s2 s3 s5 have "GlobalTime s5 = GlobalTime s" by simp
  moreover from s2 s3 s5 have "prefix (events s) (events s5)"
    by (metis append_prefixD emits_events prefix_order.trans)
  ultimately have "GlobalTime s5 = GlobalTime s" "prefix (events s) (events s5)" .
  with fin show ?thesis by (simp add: Modified_def)
qed

lemma LoadVolume_NDEBUG:
  assumes "NDEBUG p"
  shows "returned (LoadVolume p img a s) = Some True"
proof -
  from LoadVolume_encoder_NDEBUG [OF assms, of a "emits LoadVolume_texture s"]
  obtain e s3 where "LoadVolume_encoder p a (emits LoadVolume_texture s) = Done e s3"
    by (cases "LoadVolume_encoder p a (emits LoadVolume_texture s)") auto
  with assms show ?thesis
    by (simp add: LoadVolume_def Let_def GL_CHECK_ERRORS_NDEBUG Modified_def)
qed

lemma LoadVolume_Aborted:
  assumes "LoadVolume p img a s = Aborted e s'"
  shows "e = AssertionFailed \<and> \<not> NDEBUG p"
  using assms
  by (auto simp add: LoadVolume_def Let_def andThen_Aborted_iff Modified_def
      dest: GL_CHECK_ERRORS_Aborted LoadVolume_encoder_Aborted)

lemma extends_LoadVolume: "extends s (LoadVolume p img a s)"
proof (cases "LoadVolume p img a s")
  case (Done r s')
  with LoadVolume_Done [OF Done] show ?thesis by simp
next
  case (Aborted e s')
  have "extends (emits LoadVolume_texture s) (LoadVolume p img a s)"
    unfolding LoadVolume_def Let_def
    by (intro extends_andThen extends_GL_CHECK_ERRORS)
       (auto simp add: extends_def LoadVolume_encoder_final Modified_def split: prod.splits
          intro!: extends_andThen [unfolded extends_def])
  then show ?thesis by (auto simp add: extends_def dest: append_prefixD)
qed

lemma LoadVolume_sizes_unroll:
  "LoadVolume_sizes 0 self =
     self\<lparr>TextureSize := (TextureSize self)
       (0 := Extents self 1 - Extents self 0 + 1,
        1 := Extents self 3 - Extents self 2 + 1,
        2 := Extents self 5 - Extents self 4 + 1)\<rparr>"
  by ((subst LoadVolume_sizes.simps, simp)+, simp add: eval_nat_numeral)

lemma GL_CHECK_ERRORS_Aborted_state: "GL_CHECK_ERRORS p s = Aborted e s' \<Longrightarrow> s' = s"
  by (simp add: GL_CHECK_ERRORS_def assert_that_def split: if_splits)

lemma LoadVolume_Aborted_state:
  assumes "LoadVolume p img a s = Aborted e s'"
  shows "VolumeBuildTime (Implementation s') = VolumeBuildTime (Implementation s) \<and>
         GlobalTime s' = GlobalTime s"
proof -
  have f: "\<And>t. VolumeBuildTime (Implementation (final (LoadVolume_encoder p a t))) =
      VolumeBuildTime (Implementation t) \<and>
      GlobalTime (final (LoadVolume_encoder p a t)) = GlobalTime t"
    using LoadVolume_encoder_final by simp
  from assms f [of "emits LoadVolume_texture s"] show ?thesis
    by (auto simp add: LoadVolume_def Let_def andThen_Aborted_iff Modified_def
        dest!: GL_CHECK_ERRORS_Aborted_state GL_CHECK_ERRORS_Done split: prod.splits)
qed

text \<open>
  Claim C10, amended. LoadVolume has no failing return: in a build with \<^verbatim>\<open>NDEBUG\<close> it
  returns 1 for every input, and in a build with assertions a call either returns 1 or
  the process is aborted by a failed assertion (the \<^verbatim>\<open>"impossible case"\<close> branches of
  the switch, \<^verbatim>\<open>GL_CHECK_ERRORS\<close>), and then the build time is left as it was. Whenever
  it returns, it has taken the next value of the modification counter as its build time,
  also when the scalar type selected no texture format (double, 64-bit integers); so the
  build time has advanced, the input (whose modification time is not beyond the counter)
  is clean on the next frame, and a volume is dirty again exactly when its modification
  time exceeds that build time.
\<close>

theorem LoadVolume_always_succeeds:
  "(NDEBUG p \<longrightarrow> returned (LoadVolume p img a s) = Some True) \<and>
   (returned (LoadVolume p img a s) = Some True \<or>
    \<not> NDEBUG p \<and>
    LoadVolume p img a s = Aborted AssertionFailed (final (LoadVolume p img a s))) \<and>
   (returned (LoadVolume p img a s) = None \<longrightarrow>
      VolumeBuildTime (Implementation (final (LoadVolume p img a s))) =
        VolumeBuildTime (Implementation s) \<and>
      GlobalTime (final (LoadVolume p img a s)) = GlobalTime s) \<and>
   (returned (LoadVolume p img a s) = Some True \<longrightarrow>
      GlobalTime (final (LoadVolume p img a s)) = Suc (GlobalTime s) \<and>
      VolumeBuildTime (Implementation (final (LoadVolume p img a s))) = Suc (GlobalTime s) \<and>
      (VolumeBuildTime (Implementation s) \<le> GlobalTime s \<longrightarrow>
         VolumeBuildTime (Implementation s) <
         VolumeBuildTime (Implementation (final (LoadVolume p img a s)))) \<and>
      (MTime img \<le> GlobalTime s \<longrightarrow> \<not> IsDataDirty img (final (LoadVolume p img a s))) \<and>
      (\<forall>img'. IsDataDirty img' (final (LoadVolume p img a s)) \<longleftrightarrow>
         VolumeBuildTime (Implementation (final (LoadVolume p img a s))) < MTime img'))"
proof (intro conjI impI allI)
  assume "NDEBUG p"
  then show "returned (LoadVolume p img a s) = Some True" by (rule LoadVolume_NDEBUG)
next
  show "returned (LoadVolume p img a s) = Some True \<or>
    \<not> NDEBUG p \<and>
    LoadVolume p img a s = Aborted AssertionFailed (final (LoadVolume p img a s))"
  proof (cases "LoadVolume p img a s")
    case (Done r s')
    with LoadVolume_Done [OF Done] show ?thesis by simp
  next
    case (Aborted e s')
    with LoadVolume_Aborted [OF Aborted] show ?thesis by simp
  qed
next
  assume "returned (LoadVolume p img a s) = None"
  then obtain e s' where A: "LoadVolume p img a s = Aborted e s'"
    by (cases "LoadVolume p img a s") simp_all
  from LoadVolume_Aborted_state [OF A] A
  show "VolumeBuildTime (Implementation (final (LoadVolume p img a s))) =
        VolumeBuildTime (Implementation s)"
    and "GlobalTime (final (LoadVolume p img a s)) = GlobalTime s"
    by simp_all
next
  assume r: "returned (LoadVolume p img a s) = Some True"
  note D = LoadVolume_Done [OF returned_Done_final [OF r]]
  from D show "GlobalTime (final (LoadVolume p img a s)) = Suc (GlobalTime s)" by simp
  from D show "VolumeBuildTime (Implementation (final (LoadVolume p img a s))) = Suc (GlobalTime s)"
    by simp
  { assume "VolumeBuildTime (Implementation s) \<le> GlobalTime s"
    with D show "VolumeBuildTime (Implementation s) <
         VolumeBuildTime (Implementation (final (LoadVolume p img a s)))" by simp }
  { assume "MTime img \<le> GlobalTime s"
    with D show "\<not> IsDataDirty img (final (LoadVolume p img a s))"
      by (simp add: IsDataDirty_def) }
  fix img'
  show "IsDataDirty img' (final (LoadVolume p img a s)) \<longleftrightarrow>
         VolumeBuildTime (Implementation (final (LoadVolume p img a s))) < MTime img'"
    by (simp add: IsDataDirty_def)
qed

theorem LoadVolume_always_succeeds_witness:
  "NDEBUG (driver True 128) \<and>
   MTime (image_of VTK_DOUBLE 1 0) \<le> GlobalTime boot_range \<and>
   returned (LoadVolume (driver True 128) (image_of VTK_DOUBLE 1 0) (scalars_of VTK_DOUBLE 1)
     boot_range) = Some True \<and>
   \<not> IsDataDirty (image_of VTK_DOUBLE 1 0)
     (final (LoadVolume (driver True 128) (image_of VTK_DOUBLE 1 0) (scalars_of VTK_DOUBLE 1)
        boot_range)) \<and>
   last (events (final (LoadVolume (driver True 128) (image_of VTK_DOUBLE 1 0)
     (scalars_of VTK_DOUBLE 1) boot_range))) = glTexImage3D GL_0 10 10 10 GL_0 GL_0"
proof -
  have n: "NDEBUG (driver True 128)" by (simp add: driver_def)
  have t: "MTime (image_of VTK_DOUBLE 1 0) \<le> GlobalTime boot_range"
    by (simp add: image_of_def boot_range_def boot_def)
  have e: "last (events (final (LoadVolume (driver True 128) (image_of VTK_DOUBLE 1 0)
     (scalars_of VTK_DOUBLE 1) boot_range))) = glTexImage3D GL_0 10 10 10 GL_0 GL_0"
    by (simp add: LoadVolume_def LoadVolume_encoder_def LoadVolume_locals_def Let_def
        GL_CHECK_ERRORS_NDEBUG [OF n] scalars_of_def image_of_def Modified_def
        LoadVolume_sizes_unroll array_def)
  from LoadVolume_always_succeeds [of "driver True 128" "image_of VTK_DOUBLE 1 0"
      "scalars_of VTK_DOUBLE 1" boot_range] n t e
  show ?thesis by simp
qed

text \<open>
  Claim C10 as stated fails in a build with assertions: for scalars of type
  \<^verbatim>\<open>VTK_CHAR\<close> the switch reaches \<^verbatim>\<open>assert("impossible case" && 0)\<close>, and for
  scalars of type \<^verbatim>\<open>VTK_DOUBLE\<close>, which ValidateRender accepts, a driver that reports
  an error for the upload with format 0 fails \<^verbatim>\<open>GL_CHECK_ERRORS\<close>. In both cases
  LoadVolume does not return and the build time is not advanced.
\<close>

theorem LoadVolume_assertion_abort:
  "\<not> NDEBUG (driver False 128) \<and>
   returned (LoadVolume (driver False 128) (image_of VTK_CHAR 1 0) (scalars_of VTK_CHAR 1)
     boot_range) = None \<and>
   VolumeBuildTime (Implementation (final (LoadVolume (driver False 128) (image_of VTK_CHAR 1 0)
     (scalars_of VTK_CHAR 1) boot_range))) = VolumeBuildTime (Implementation boot_range) \<and>
   returned (ValidateRender (mapper_of (image_of VTK_DOUBLE 1 0)) (Some camera)
     (Some (volume_with [] [] 1)) boot) = Some 1 \<and>
   returned (LoadVolume checking_driver (image_of VTK_DOUBLE 1 0) (scalars_of VTK_DOUBLE 1)
     boot_range) = None \<and>
   VolumeBuildTime (Implementation (final (LoadVolume checking_driver (image_of VTK_DOUBLE 1 0)
     (scalars_of VTK_DOUBLE 1) boot_range))) = VolumeBuildTime (Implementation boot_range) \<and>
   IsDataDirty (image_of VTK_DOUBLE 1 0) (final (LoadVolume checking_driver
     (image_of VTK_DOUBLE 1 0) (scalars_of VTK_DOUBLE 1) boot_range))"
proof -
  have c: "LoadVolume (driver False 128) (image_of VTK_CHAR 1 0) (scalars_of VTK_CHAR 1) boot_range
      = Aborted AssertionFailed (emits LoadVolume_texture boot_range)"
    by (simp add: LoadVolume_def Let_def GL_CHECK_ERRORS_def assert_that_def driver_def
        GL_NO_ERROR_def LoadVolume_encoder_def scalars_of_def impossible_case_def)
  have g1: "GL_CHECK_ERRORS checking_driver (emits LoadVolume_texture boot_range) =
      Done () (emits LoadVolume_texture boot_range)"
    by (simp add: GL_CHECK_ERRORS_def assert_that_def checking_driver_def GL_NO_ERROR_def
        LoadVolume_texture_def boot_range_def boot_def)
  have d: "LoadVolume checking_driver (image_of VTK_DOUBLE 1 0) (scalars_of VTK_DOUBLE 1) boot_range
      = Aborted AssertionFailed
          (final (LoadVolume checking_driver (image_of VTK_DOUBLE 1 0) (scalars_of VTK_DOUBLE 1)
             boot_range))"
    by (simp add: LoadVolume_def Let_def g1 LoadVolume_encoder_def scalars_of_def
        LoadVolume_locals_def GL_CHECK_ERRORS_def assert_that_def checking_driver_def
        GL_NO_ERROR_def GL_INVALID_ENUM_def)
  have v: "returned (ValidateRender (mapper_of (image_of VTK_DOUBLE 1 0)) (Some camera)
     (Some (volume_with [] [] 1)) boot) = Some 1"
    using ValidateRender_validation [of "mapper_of (image_of VTK_DOUBLE 1 0)" "Some camera"
        "Some (volume_with [] [] 1)" boot]
    by (simp add: validation_def accepted_def mapper_of_def image_of_def scalars_of_def)
  from LoadVolume_Aborted_state [OF d]
  have b: "VolumeBuildTime (Implementation (final (LoadVolume checking_driver
      (image_of VTK_DOUBLE 1 0) (scalars_of VTK_DOUBLE 1) boot_range))) =
      VolumeBuildTime (Implementation boot_range)"
    by simp
  then have i: "IsDataDirty (image_of VTK_DOUBLE 1 0) (final (LoadVolume checking_driver
     (image_of VTK_DOUBLE 1 0) (scalars_of VTK_DOUBLE 1) boot_range))"
    by (simp add: IsDataDirty_def image_of_def boot_range_def boot_def constructed_def)
  have r: "returned (LoadVolume checking_driver (image_of VTK_DOUBLE 1 0)
      (scalars_of VTK_DOUBLE 1) boot_range) = None"
    by (subst d) simp
  from c v r b i show ?thesis by (simp add: driver_def)
qed

subsection \<open>The stages of GPURender\<close>

lemma extends_cases:
  assumes "\<And>x s'. out = Done x s' \<Longrightarrow> prefix (events s) (events s')"
    and "\<And>e s'. out = Aborted e s' \<Longrightarrow> prefix (events s) (events s')"
  shows "extends s out"
  using assms by (cases out) simp_all

lemma extends_prod:
  "(\<And>a b. extends s (f a b s)) \<Longrightarrow> extends s ((case x of (a, b) \<Rightarrow> f a b) s)"
  by (cases x) simp

lemma extends_emit_start: "extends (emit e s) out \<Longrightarrow> extends s out"
  by (auto simp add: extends_def dest: append_prefixD)

lemma extends_emits_start: "extends (emits es s) out \<Longrightarrow> extends s out"
  by (auto simp add: extends_def dest: append_prefixD)

lemma extends_UpdateVolumeGeometry: "extends s (UpdateVolumeGeometry p s)"
  unfolding UpdateVolumeGeometry_def Let_def
  by (intro extends_andThen; simp add: extends_def)

lemma extends_Initialize: "extends s (Initialize p s)"
  unfolding Initialize_def Let_def
  by (intro extends_andThen; simp add: extends_def)

lemma UpdateNoiseTexture_prefix: "prefix (events s) (events (UpdateNoiseTexture p s))"
  by (simp add: UpdateNoiseTexture_def Let_def)

lemma extends_UpdateColorTransferFunction: "extends s (UpdateColorTransferFunction vol n s)"
  by (cases vol) (simp_all add: UpdateColorTransferFunction_def deref_def Let_def)

lemma extends_UpdateOpacityTransferFunction:
  "extends s (UpdateOpacityTransferFunction m vol n level s)"
  by (cases vol) (simp_all add: UpdateOpacityTransferFunction_def Let_def)

lemma extends_GPURender_load: "extends s (GPURender_load p img a s)"
proof (cases "IsDataDirty img s")
  case True
  have "extends (s\<lparr>Implementation := ComputeBounds img (Implementation s)\<rparr>)
          (andThen (LoadVolume p img a (s\<lparr>Implementation := ComputeBounds img (Implementation s)\<rparr>))
             (\<lambda>ignored s11. UpdateVolumeGeometry p s11))"
    by (intro extends_andThen extends_LoadVolume extends_UpdateVolumeGeometry)
  with True show ?thesis by (simp add: GPURender_load_def Let_def extends_def)
next
  case False
  then show ?thesis by (simp add: GPURender_load_def)
qed

lemma extends_GPURender_tables: "extends s (GPURender_tables p m vol a s)"
  unfolding GPURender_tables_def
  apply (rule extends_emit_start [of Shader_Use])
  apply (rule extends_andThen)
   apply (rule extends_UpdateOpacityTransferFunction)
  apply (rule extends_prod)
  apply (rule extends_andThen)
   apply (rule extends_UpdateColorTransferFunction)
  apply (rule extends_prod)
  apply (rule extends_andThen)
   apply (simp add: extends_def UpdateNoiseTexture_prefix)
  apply (rule extends_andThen)
   apply (simp add: extends_def)
  apply simp
  done

lemma extends_GPURender_draw: "extends s (GPURender_draw m r vol s)"
  by (cases vol) (simp_all add: GPURender_draw_def Let_def deref_def)

text \<open>
  A rule for a chain of steps: what the chain started with stays a prefix of the events,
  and a property of the value and state it returns follows from the last step.
\<close>

lemma chain_andThen:
  assumes "extends s0 m" and "prefix E (events s0)"
    and "\<And>x s1. prefix E (events s1) \<Longrightarrow> m = Done x s1 \<Longrightarrow>
           prefix E (events (final (f x s1))) \<and> (\<forall>y t. f x s1 = Done y t \<longrightarrow> P y t)"
  shows "prefix E (events (final (andThen m f))) \<and> (\<forall>y t. andThen m f = Done y t \<longrightarrow> P y t)"
proof (cases m)
  case (Done x s1)
  from assms(1,2) Done have "prefix E (events s1)"
    by (auto simp add: extends_def intro: prefix_order.trans)
  from assms(3) [OF this Done] Done show ?thesis by simp
next
  case (Aborted e s1)
  from assms(1,2) Aborted have "prefix E (events s1)"
    by (auto simp add: extends_def intro: prefix_order.trans)
  with Aborted show ?thesis by simp
qed


lemma extends_from_same_events:
  "events s = events s' \<Longrightarrow> extends s' out \<Longrightarrow> extends s out"
  by (simp add: extends_def)

lemma extends_if:
  "(c \<Longrightarrow> extends s a) \<Longrightarrow> (\<not> c \<Longrightarrow> extends s b) \<Longrightarrow> extends s (if c then a else b)"
  by simp

text \<open>
  GPURender from a renderer and a volume that are not null: the events keep what was
  there, \<open>MakeCurrent\<close> included; and when it returns, the state it returns is the one the
  draw stage left.
\<close>

lemma deref_Some [simp]: "deref (Some x) s = Done x s"
  by (simp add: deref_def)

lemma deref_None [simp]: "deref None s = Aborted NullPointerDereference s"
  by (simp add: deref_def)

lemma GPURender_draw_Done:
  assumes "GPURender_draw m r vol s = Done u t"
  shows "\<exists>v2. vol = Some v2 \<and>
           t = emits (GPURender_bind_and_draw m r v2 (Implementation s))
                 (emits (GPURender_uniforms m (Implementation s)) s)"
  using assms by (cases vol) (simp_all add: GPURender_draw_def Let_def)

lemma GPURender_chain:
  assumes pre: "prefix E (events s @ [MakeCurrent])"
  shows "prefix E (events (final (GPURender p m (Some r) (Some v) s))) \<and>
    (\<forall>y t. GPURender p m (Some r) (Some v) s = Done y t \<longrightarrow>
       (\<exists>img a s5 s12 s16 v2. Input m = Some img \<and> Scalars img = Some a \<and>
          (if \<not> IsInitialized (emits GPURender_enable (emit Volume_Update (emit MakeCurrent s)))
           then Initialize p (emits GPURender_enable (emit Volume_Update (emit MakeCurrent s)))
           else Done () (emits GPURender_enable (emit Volume_Update (emit MakeCurrent s)))) = Done () s5 \<and>
          GPURender_load p img a
            (s5\<lparr>Implementation := (Implementation s5)
               \<lparr>CellFlag := ScalarsAssociation img, ScalarsRange := Range a\<rparr>\<rparr>) = Done () s12 \<and>
          prefix E (events s12) \<and> GPURender_tables p m (Some v) a s12 = Done (Some v2) s16 \<and>
          prefix E (events s16) \<and> y = Some v2 \<and>
          t = emits (GPURender_bind_and_draw m r v2 (GPURender_step m (Implementation s16)))
                (emits (GPURender_uniforms m (GPURender_step m (Implementation s16)))
                   (s16\<lparr>Implementation := GPURender_step m (Implementation s16)\<rparr>))))"
  unfolding GPURender_def
  apply (simp only: deref_Some andThen.simps Let_def)
  apply (rule chain_andThen)
    apply (rule extends_if)
     apply (rule extends_Initialize)
    apply simp
   apply (rule prefix_order.trans [OF pre])
   apply simp
  apply (rule chain_andThen)
    apply (rule extends_deref)
   apply assumption
  apply (simp only: GetScalars_def prod.case)
  apply (rule chain_andThen)
    apply (rule extends_deref)
   apply simp
  apply (rule chain_andThen)
    apply (rule extends_GPURender_load)
   apply simp
  apply (rule chain_andThen)
    apply (rule extends_GPURender_tables)
   apply assumption
  apply (rule chain_andThen)
    apply (rule extends_GPURender_draw)
   apply simp
  apply (drule GPURender_draw_Done)
  apply (auto simp add: deref_def split: option.splits)
  done

lemma in_new_events:
  assumes "prefix (events s) (events s1)" and "prefix (events s1 @ es) (events s')"
    and "e \<in> set es"
  shows "e \<in> set (new_events s s')"
proof -
  from assms(1) obtain a where a: "events s1 = events s @ a" by (auto simp add: prefix_def)
  from assms(2) obtain b where b: "events s' = events s1 @ es @ b" by (auto simp add: prefix_def)
  from a b assms(3) show ?thesis by (simp add: new_events_def)
qed


text \<open>With \<^verbatim>\<open>NDEBUG\<close> every stage returns.\<close>

lemma returned_andThen:
  assumes "returned m \<noteq> None" and "\<And>x s1. m = Done x s1 \<Longrightarrow> returned (f x s1) \<noteq> None"
  shows "returned (andThen m f) \<noteq> None"
  using assms by (cases m) simp_all

lemma Initialize_returns: "NDEBUG p \<Longrightarrow> returned (Initialize p s) \<noteq> None"
  by (simp add: Initialize_def Let_def GL_CHECK_ERRORS_NDEBUG)

lemma UpdateVolumeGeometry_returns: "NDEBUG p \<Longrightarrow> returned (UpdateVolumeGeometry p s) \<noteq> None"
  by (simp add: UpdateVolumeGeometry_def Let_def GL_CHECK_ERRORS_NDEBUG)

lemma GPURender_load_returns:
  assumes "NDEBUG p"
  shows "returned (GPURender_load p img a s) \<noteq> None"
proof (cases "IsDataDirty img s")
  case True
  have "returned (andThen (LoadVolume p img a (s\<lparr>Implementation := ComputeBounds img (Implementation s)\<rparr>))
             (\<lambda>ignored s11. UpdateVolumeGeometry p s11)) \<noteq> None"
    by (rule returned_andThen)
       (simp_all add: LoadVolume_NDEBUG [OF assms] UpdateVolumeGeometry_returns [OF assms])
  with True show ?thesis by (simp add: GPURender_load_def Let_def)
next
  case False
  then show ?thesis by (simp add: GPURender_load_def)
qed

lemma GPURender_tables_returns:
  assumes "NDEBUG p"
  shows "\<exists>v2 t. GPURender_tables p m (Some v) a s = Done (Some v2) t"
  using assms
  by (simp add: GPURender_tables_def UpdateOpacityTransferFunction_def
      UpdateColorTransferFunction_def Let_def GL_CHECK_ERRORS_NDEBUG)

lemma GPURender_tables_Some:
  assumes "GPURender_tables p m (Some v) a s = Done vol2 t"
  shows "\<exists>v2. vol2 = Some v2"
  using assms
  by (auto simp add: GPURender_tables_def UpdateOpacityTransferFunction_def
      UpdateColorTransferFunction_def Let_def andThen_Done_iff split: if_splits)

lemma GPURender_returns:
  assumes n: "NDEBUG p" and i: "Input m = Some img" and a: "Scalars img = Some a"
  shows "returned (GPURender p m (Some r) (Some v) s) \<noteq> None"
  unfolding GPURender_def
  apply (simp only: deref_Some andThen.simps Let_def i GetScalars_def prod.case a)
  apply (rule returned_andThen)
   using Initialize_returns [OF n] apply simp
  apply (rule returned_andThen)
   apply (rule GPURender_load_returns [OF n])
  apply (rule returned_andThen)
   using GPURender_tables_returns [OF n, of m v a] apply (metis returned.simps(1) option.distinct(1))
  apply (rule returned_andThen)
   apply (drule GPURender_tables_Some)
   apply (auto simp add: GPURender_draw_def Let_def)
  done

text \<open>What the stages leave of the members of vtkInternal.\<close>

lemma LoadVolume_sizes_Bounds [simp]:
  "Bounds (LoadVolume_sizes i self) = Bounds self"
  by (induction i self rule: LoadVolume_sizes.induct) (subst LoadVolume_sizes.simps, simp)

lemma LoadVolume_Done_Bounds:
  assumes "LoadVolume p img a s = Done r s'"
  shows "Bounds (Implementation s') = Bounds (Implementation s)"
proof -
  from assms obtain e s3 where
    enc: "LoadVolume_encoder p a (emits LoadVolume_texture s) = Done e s3" and
    b: "Bounds (Implementation s') = Bounds (Implementation s3)"
    by (auto simp add: LoadVolume_def Let_def andThen_Done_iff Modified_def
        dest!: GL_CHECK_ERRORS_Done)
  with LoadVolume_encoder_final [of p a "emits LoadVolume_texture s"] show ?thesis by simp
qed

lemma UpdateVolumeGeometry_Done:
  "UpdateVolumeGeometry p s = Done u t \<Longrightarrow> Implementation t = Implementation s"
  by (auto simp add: UpdateVolumeGeometry_def Let_def andThen_Done_iff dest!: GL_CHECK_ERRORS_Done)

lemma GPURender_load_dirty:
  assumes "GPURender_load p img a s = Done u t" and "IsDataDirty img s"
  shows "Bounds (Implementation t) = Bounds (ComputeBounds img (Implementation s))"
  using assms
  by (auto simp add: GPURender_load_def Let_def andThen_Done_iff
      dest!: LoadVolume_Done_Bounds UpdateVolumeGeometry_Done)

lemma Initialize_Done:
  "Initialize p s = Done u t \<Longrightarrow>
   Implementation t = (Implementation s)\<lparr>Initialized := True\<rparr>"
  by (auto simp add: Initialize_def Let_def andThen_Done_iff dest!: GL_CHECK_ERRORS_Done)

lemma UpdateNoiseTexture_Bounds [simp]:
  "Bounds (Implementation (UpdateNoiseTexture p s)) = Bounds (Implementation s)"
  by (simp add: UpdateNoiseTexture_def Let_def)

lemma GPURender_tables_Bounds:
  assumes "GPURender_tables p m (Some v) a s = Done vol2 t"
  shows "Bounds (Implementation t) = Bounds (Implementation s)"
  using assms
  by (auto simp add: GPURender_tables_def UpdateOpacityTransferFunction_def
      UpdateColorTransferFunction_def Let_def andThen_Done_iff
      split: if_splits dest!: GL_CHECK_ERRORS_Done)

lemma GPURender_step_fields [simp]:
  "Bounds (GPURender_step m self) = Bounds self"
  "StepSize (GPURender_step m self) 0 = fdiv 1 (Mapper_Bounds m 1 - Mapper_Bounds m 0)"
  "StepSize (GPURender_step m self) (Suc 0) = fdiv 1 (Mapper_Bounds m 3 - Mapper_Bounds m 2)"
  "StepSize (GPURender_step m self) 2 = fdiv 1 (Mapper_Bounds m 5 - Mapper_Bounds m 4)"
  "CellScale (GPURender_step m self) 0 = (Mapper_Bounds m 1 - Mapper_Bounds m 0) * 0.5"
  "CellScale (GPURender_step m self) (Suc 0) = (Mapper_Bounds m 3 - Mapper_Bounds m 2) * 0.5"
  "CellScale (GPURender_step m self) 2 = (Mapper_Bounds m 5 - Mapper_Bounds m 4) * 0.5"
  by (simp_all add: GPURender_step_def Let_def)

lemma accepted_pointers:
  assumes "accepted m ren vol"
  shows "\<exists>r v img a. ren = Some r \<and> vol = Some v \<and> Input m = Some img \<and> Scalars img = Some a"
  using assms by (auto simp add: accepted_def split: option.splits)

lemma GPURender_Done_pointers:
  assumes "GPURender p m ren vol s = Done y t"
  shows "\<exists>r v. ren = Some r \<and> vol = Some v"
  using assms by (cases ren; cases vol) (simp_all add: GPURender_def)

lemma GPURender_accepted_returns:
  assumes "NDEBUG p" and "accepted m ren vol"
  shows "returned (GPURender p m ren vol s) \<noteq> None"
proof -
  from accepted_pointers [OF assms(2)] obtain r v img a where
    "ren = Some r" "vol = Some v" "Input m = Some img" "Scalars img = Some a" by blast
  with GPURender_returns [OF assms(1), of m img a r v s] show ?thesis by simp
qed

text \<open>What a frame that GPURender completes leaves.\<close>

lemma GPURender_Done_state:
  assumes "GPURender p m ren vol s = Done y t"
  shows "StepSize (Implementation t) 0 = fdiv 1 (Mapper_Bounds m 1 - Mapper_Bounds m 0)"
    and "StepSize (Implementation t) 1 = fdiv 1 (Mapper_Bounds m 3 - Mapper_Bounds m 2)"
    and "StepSize (Implementation t) 2 = fdiv 1 (Mapper_Bounds m 5 - Mapper_Bounds m 4)"
    and "CellScale (Implementation t) 0 = (Mapper_Bounds m 1 - Mapper_Bounds m 0) * 0.5"
    and "CellScale (Implementation t) 1 = (Mapper_Bounds m 3 - Mapper_Bounds m 2) * 0.5"
    and "CellScale (Implementation t) 2 = (Mapper_Bounds m 5 - Mapper_Bounds m 4) * 0.5"
    and "set (GPURender_uniforms m (Implementation t)) \<subseteq> set (new_events s t)"
    and "glDrawElements 36 \<in> set (new_events s t)"
proof -
  from GPURender_Done_pointers [OF assms] obtain r v where rv: "ren = Some r" "vol = Some v"
    by blast
  have "prefix (events s) (events s @ [MakeCurrent])" by simp
  from GPURender_chain [OF this, of p m r v, THEN conjunct2, rule_format, of y t] assms rv
  obtain s16 v2 where p: "prefix (events s) (events s16)"
    and t: "t = emits (GPURender_bind_and_draw m r v2 (GPURender_step m (Implementation s16)))
                (emits (GPURender_uniforms m (GPURender_step m (Implementation s16)))
                   (s16\<lparr>Implementation := GPURender_step m (Implementation s16)\<rparr>))"
    by auto
  from t have i: "Implementation t = GPURender_step m (Implementation s16)" by simp
  from i show "StepSize (Implementation t) 0 = fdiv 1 (Mapper_Bounds m 1 - Mapper_Bounds m 0)"
    and "StepSize (Implementation t) 1 = fdiv 1 (Mapper_Bounds m 3 - Mapper_Bounds m 2)"
    and "StepSize (Implementation t) 2 = fdiv 1 (Mapper_Bounds m 5 - Mapper_Bounds m 4)"
    and "CellScale (Implementation t) 0 = (Mapper_Bounds m 1 - Mapper_Bounds m 0) * 0.5"
    and "CellScale (Implementation t) 1 = (Mapper_Bounds m 3 - Mapper_Bounds m 2) * 0.5"
    and "CellScale (Implementation t) 2 = (Mapper_Bounds m 5 - Mapper_Bounds m 4) * 0.5"
    by simp_all
  from t i have e: "events t = events s16 @ GPURender_uniforms m (Implementation t) @
      GPURender_bind_and_draw m r v2 (Implementation t)"
    by simp
  show "set (GPURender_uniforms m (Implementation t)) \<subseteq> set (new_events s t)"
  proof
    fix x assume "x \<in> set (GPURender_uniforms m (Implementation t))"
    with p e show "x \<in> set (new_events s t)"
      by (intro in_new_events [of s s16 "GPURender_uniforms m (Implementation t)"]) simp_all
  qed
  have "glDrawElements 36 \<in> set (GPURender_uniforms m (Implementation t) @
      GPURender_bind_and_draw m r v2 (Implementation t))"
    by (simp add: GPURender_bind_and_draw_def Let_def)
  with p e show "glDrawElements 36 \<in> set (new_events s t)"
    by (intro in_new_events [of s s16 "GPURender_uniforms m (Implementation t) @
      GPURender_bind_and_draw m r v2 (Implementation t)"]) simp_all
qed


lemma GPURender_cell_bounds:
  assumes run: "GPURender p m ren vol s = Done y t" and img: "Input m = Some img"
    and cell: "ScalarsAssociation img \<noteq> 0"
    and dirty: "VolumeBuildTime (Implementation s) < MTime img" and i: "i < 3"
  shows "Bounds (Implementation t) (2 * i + (if Spacing img i < 0 then 1 else 0)) = Origin img i"
    and "Bounds (Implementation t) (2 * i + 1 - (if Spacing img i < 0 then 1 else 0)) =
         Origin img i + (real_of_int (Extent img (2 * i + 1)) + 0.5) * Spacing img i"
proof -
  from GPURender_Done_pointers [OF run] obtain r v where rv: "ren = Some r" "vol = Some v"
    by blast
  let ?s4 = "emits GPURender_enable (emit Volume_Update (emit MakeCurrent s))"
  have "prefix (events s) (events s @ [MakeCurrent])" by simp
  from GPURender_chain [OF this, of p m r v, THEN conjunct2, rule_format, of y t] run rv img
  obtain a s5 s12 s16 v2 where
    init: "(if \<not> IsInitialized ?s4 then Initialize p ?s4 else Done () ?s4) = Done () s5"
    and load: "GPURender_load p img a
            (s5\<lparr>Implementation := (Implementation s5)
               \<lparr>CellFlag := ScalarsAssociation img, ScalarsRange := Range a\<rparr>\<rparr>) = Done () s12"
    and tab: "GPURender_tables p m (Some v) a s12 = Done (Some v2) s16"
    and t: "t = emits (GPURender_bind_and_draw m r v2 (GPURender_step m (Implementation s16)))
                (emits (GPURender_uniforms m (GPURender_step m (Implementation s16)))
                   (s16\<lparr>Implementation := GPURender_step m (Implementation s16)\<rparr>))"
    by auto
  let ?self = "(Implementation s5)\<lparr>CellFlag := ScalarsAssociation img, ScalarsRange := Range a\<rparr>"
  from init have "VolumeBuildTime (Implementation s5) = VolumeBuildTime (Implementation s)"
    by (auto split: if_splits dest!: Initialize_Done)
  with dirty have d: "IsDataDirty img (s5\<lparr>Implementation := ?self\<rparr>)"
    by (simp add: IsDataDirty_def)
  from t have "Bounds (Implementation t) = Bounds (Implementation s16)" by simp
  also from tab have "\<dots> = Bounds (Implementation s12)" by (rule GPURender_tables_Bounds)
  also from GPURender_load_dirty [OF load d]
  have "\<dots> = Bounds (ComputeBounds img ?self)" by simp
  finally have b: "Bounds (Implementation t) = Bounds (ComputeBounds img ?self)" .
  from cell have c: "CellFlag ?self \<noteq> 0" by simp
  from b ComputeBounds_cell_lower [OF c i, of img]
  show "Bounds (Implementation t) (2 * i + (if Spacing img i < 0 then 1 else 0)) = Origin img i"
    by simp
  from b ComputeBounds_cell_upper [OF c i, of img]
  show "Bounds (Implementation t) (2 * i + 1 - (if Spacing img i < 0 then 1 else 0)) =
         Origin img i + (real_of_int (Extent img (2 * i + 1)) + 0.5) * Spacing img i"
    by simp
qed

subsection \<open>Step size and cell scale\<close>

text \<open>
  Claim C8, amended. A frame that ValidateRender accepts is completed by GPURender in a
  build with \<^verbatim>\<open>NDEBUG\<close>, and whenever GPURender completes a frame it has set, per axis,
  the step size to the reciprocal of that axis's extent of the mapper's own bounding box
  (\<^verbatim>\<open>this->Bounds\<close> of vtkSinglePassVolumeMapper, not the box ComputeBounds stores in the
  Implementation) and the cell scale to half that extent, and has passed both to the
  shader as the uniforms \<open>step_size\<close> and \<open>cell_scale\<close>. The reciprocal of an extent of
  zero has no value in the reals (\<open>fdiv\<close>).
\<close>

theorem GPURender_step_size:
  "(NDEBUG p \<and> accepted m ren vol \<longrightarrow> returned (GPURender p m ren vol s) \<noteq> None) \<and>
   (returned (GPURender p m ren vol s) \<noteq> None \<longrightarrow>
      (\<forall>i<3. StepSize (Implementation (final (GPURender p m ren vol s))) i =
                 fdiv 1 (Mapper_Bounds m (2 * i + 1) - Mapper_Bounds m (2 * i)) \<and>
              CellScale (Implementation (final (GPURender p m ren vol s))) i =
                 (Mapper_Bounds m (2 * i + 1) - Mapper_Bounds m (2 * i)) * 0.5) \<and>
      glUniform3f ''step_size''
        (StepSize (Implementation (final (GPURender p m ren vol s))) 0)
        (StepSize (Implementation (final (GPURender p m ren vol s))) 1)
        (StepSize (Implementation (final (GPURender p m ren vol s))) 2)
        \<in> set (new_events s (final (GPURender p m ren vol s))) \<and>
      glUniform3f ''cell_scale''
        (Some (CellScale (Implementation (final (GPURender p m ren vol s))) 0))
        (Some (CellScale (Implementation (final (GPURender p m ren vol s))) 1))
        (Some (CellScale (Implementation (final (GPURender p m ren vol s))) 2))
        \<in> set (new_events s (final (GPURender p m ren vol s))))"
proof (intro conjI impI)
  assume "NDEBUG p \<and> accepted m ren vol"
  then show "returned (GPURender p m ren vol s) \<noteq> None"
    by (simp add: GPURender_accepted_returns)
next
  assume "returned (GPURender p m ren vol s) \<noteq> None"
  then obtain y where "returned (GPURender p m ren vol s) = Some y" by blast
  then have d: "GPURender p m ren vol s = Done y (final (GPURender p m ren vol s))"
    by (rule returned_Done_final)
  note F = GPURender_Done_state [OF d]
  show "\<forall>i<3. StepSize (Implementation (final (GPURender p m ren vol s))) i =
                 fdiv 1 (Mapper_Bounds m (2 * i + 1) - Mapper_Bounds m (2 * i)) \<and>
              CellScale (Implementation (final (GPURender p m ren vol s))) i =
                 (Mapper_Bounds m (2 * i + 1) - Mapper_Bounds m (2 * i)) * 0.5"
  proof (intro allI impI)
    fix i :: nat assume "i < 3"
    then show "StepSize (Implementation (final (GPURender p m ren vol s))) i =
                 fdiv 1 (Mapper_Bounds m (2 * i + 1) - Mapper_Bounds m (2 * i)) \<and>
              CellScale (Implementation (final (GPURender p m ren vol s))) i =
                 (Mapper_Bounds m (2 * i + 1) - Mapper_Bounds m (2 * i)) * 0.5"
    proof -
      assume "i < 3"
      then consider "i = 0" | "i = 1" | "i = 2" by arith
      then show ?thesis using F(1-6) by cases simp_all
    qed
  qed
  from F(7) show "glUniform3f ''step_size''
        (StepSize (Implementation (final (GPURender p m ren vol s))) 0)
        (StepSize (Implementation (final (GPURender p m ren vol s))) 1)
        (StepSize (Implementation (final (GPURender p m ren vol s))) 2)
        \<in> set (new_events s (final (GPURender p m ren vol s)))"
    by (auto simp add: GPURender_uniforms_def)
  from F(7) show "glUniform3f ''cell_scale''
        (Some (CellScale (Implementation (final (GPURender p m ren vol s))) 0))
        (Some (CellScale (Implementation (final (GPURender p m ren vol s))) 1))
        (Some (CellScale (Implementation (final (GPURender p m ren vol s))) 2))
        \<in> set (new_events s (final (GPURender p m ren vol s)))"
    by (auto simp add: GPURender_uniforms_def)
qed

lemma accepted_float_example:
  "accepted (mapper_of (image_of VTK_FLOAT 1 assoc)) (Some camera) (Some (volume_with c f 1)) \<longleftrightarrow>
     assoc \<noteq> 2"
  by (simp add: accepted_def mapper_of_def image_of_def scalars_of_def)

theorem GPURender_step_size_witness:
  "NDEBUG (driver True 128) \<and>
   accepted (mapper_of (image_of VTK_FLOAT 1 0)) (Some camera) (Some (volume_with [] [] 1)) \<and>
   returned (GPURender (driver True 128) (mapper_of (image_of VTK_FLOAT 1 0)) (Some camera)
     (Some (volume_with [] [] 1)) boot) \<noteq> None \<and>
   StepSize (Implementation (final (GPURender (driver True 128) (mapper_of (image_of VTK_FLOAT 1 0))
     (Some camera) (Some (volume_with [] [] 1)) boot))) 0 = Some (1 / 9) \<and>
   CellScale (Implementation (final (GPURender (driver True 128) (mapper_of (image_of VTK_FLOAT 1 0))
     (Some camera) (Some (volume_with [] [] 1)) boot))) 0 = 9 / 2"
proof -
  have n: "NDEBUG (driver True 128)" by (simp add: driver_def)
  have a: "accepted (mapper_of (image_of VTK_FLOAT 1 0)) (Some camera) (Some (volume_with [] [] 1))"
    by (simp add: accepted_float_example)
  note T = GPURender_step_size [of "driver True 128" "mapper_of (image_of VTK_FLOAT 1 0)"
      "Some camera" "Some (volume_with [] [] 1)" boot]
  from T n a have r: "returned (GPURender (driver True 128) (mapper_of (image_of VTK_FLOAT 1 0))
      (Some camera) (Some (volume_with [] [] 1)) boot) \<noteq> None"
    by blast
  from T [THEN conjunct2, THEN mp, OF r, THEN conjunct1, rule_format, of 0]
  have v: "StepSize (Implementation (final (GPURender (driver True 128)
      (mapper_of (image_of VTK_FLOAT 1 0)) (Some camera) (Some (volume_with [] [] 1)) boot))) 0 =
        Some (1 / 9)"
    "CellScale (Implementation (final (GPURender (driver True 128)
      (mapper_of (image_of VTK_FLOAT 1 0)) (Some camera) (Some (volume_with [] [] 1)) boot))) 0 =
        9 / 2"
    by (simp_all add: mapper_of_def array_def fdiv_def)
  with n a r show ?thesis by simp
qed

text \<open>
  Claim C8 as stated fails for cell data: on the volume with extent 0..9 on each axis
  ComputeBounds stores the box from 0 to 9.5 in the Implementation, and the step size
  and the cell scale of the frame are 1/9 and 9/2, from the mapper's box from 0 to 9,
  where the claim requires 2/19 and 19/4.
\<close>

theorem step_size_not_of_ComputeBounds:
  "accepted (mapper_of (image_of VTK_FLOAT 1 1)) (Some camera) (Some (volume_with [] [] 1)) \<and>
   returned (GPURender (driver True 128) (mapper_of (image_of VTK_FLOAT 1 1)) (Some camera)
     (Some (volume_with [] [] 1)) boot) \<noteq> None \<and>
   Bounds (Implementation (final (GPURender (driver True 128) (mapper_of (image_of VTK_FLOAT 1 1))
     (Some camera) (Some (volume_with [] [] 1)) boot))) 0 = 0 \<and>
   Bounds (Implementation (final (GPURender (driver True 128) (mapper_of (image_of VTK_FLOAT 1 1))
     (Some camera) (Some (volume_with [] [] 1)) boot))) 1 = 19 / 2 \<and>
   StepSize (Implementation (final (GPURender (driver True 128) (mapper_of (image_of VTK_FLOAT 1 1))
     (Some camera) (Some (volume_with [] [] 1)) boot))) 0 = Some (1 / 9) \<and>
   CellScale (Implementation (final (GPURender (driver True 128) (mapper_of (image_of VTK_FLOAT 1 1))
     (Some camera) (Some (volume_with [] [] 1)) boot))) 0 = 9 / 2"
proof -
  let ?G = "GPURender (driver True 128) (mapper_of (image_of VTK_FLOAT 1 1)) (Some camera)
     (Some (volume_with [] [] 1)) boot"
  have n: "NDEBUG (driver True 128)" by (simp add: driver_def)
  have a: "accepted (mapper_of (image_of VTK_FLOAT 1 1)) (Some camera) (Some (volume_with [] [] 1))"
    by (simp add: accepted_float_example)
  from GPURender_accepted_returns [OF n a, of boot] have r: "returned ?G \<noteq> None" .
  then obtain y where "returned ?G = Some y" by blast
  then have d: "?G = Done y (final ?G)" by (rule returned_Done_final)
  have i: "Input (mapper_of (image_of VTK_FLOAT 1 1)) = Some (image_of VTK_FLOAT 1 1)"
    by (simp add: mapper_of_def)
  have c: "ScalarsAssociation (image_of VTK_FLOAT 1 1) \<noteq> 0" by (simp add: image_of_def)
  have t: "VolumeBuildTime (Implementation boot) < MTime (image_of VTK_FLOAT 1 1)"
    by (simp add: boot_def constructed_def image_of_def)
  from GPURender_cell_bounds [OF d i c t, of 0]
  have b: "Bounds (Implementation (final ?G)) 0 = 0" "Bounds (Implementation (final ?G)) 1 = 19 / 2"
    by (simp_all add: image_of_def array_def)
  from GPURender_Done_state(1,4) [OF d]
  have s: "StepSize (Implementation (final ?G)) 0 = Some (1 / 9)"
    "CellScale (Implementation (final ?G)) 0 = 9 / 2"
    by (simp_all add: mapper_of_def array_def fdiv_def)
  from a r b s show ?thesis by simp
qed

subsection \<open>Scalars with more than one component\<close>







subsection \<open>Render and the validation\<close>

lemma Render_rejected:
  assumes "\<not> accepted m ren vol"
  shows "returned (Render p m ren vol s) = Some vol"
    and "MakeCurrent \<notin> set (new_events s (final (Render p m ren vol s)))"
proof -
  let ?s2 = "emit StartTimer (emit VolumeMapperRenderStartEvent s)"
  let ?V = "ValidateRender m ren vol ?s2"
  have v: "validation m ren vol ?s2 ?V" by (rule ValidateRender_validation)
  with assms have "returned ?V = Some 0" by (simp add: validation_def)
  then have d: "?V = Done 0 (final ?V)" by (rule returned_Done_final)
  from v have p: "prefix (events ?s2) (events (final ?V))"
    and k: "MakeCurrent \<notin> set (new_events ?s2 (final ?V))"
    by (simp_all add: validation_def)
  from p obtain zs where z: "events (final ?V) = events ?s2 @ zs" by (auto simp add: prefix_def)
  with k have zs: "MakeCurrent \<notin> set zs" by (simp add: new_events_def)
  have R: "Render p m ren vol s = andThen ?V (\<lambda>valid s3.
     andThen (if valid \<noteq> 0 then GPURender p m ren vol s3 else Done vol s3) (\<lambda>vol' s4.
       let s5 = emit StopTimer s4;
           s6 = s5\<lparr>Implementation := (Implementation s5)\<lparr>ElapsedDrawTime := GetElapsedTime p\<rparr>\<rparr>;
           s7 = emit VolumeMapperRenderEndEvent s6
       in Done vol' s7))"
    by (simp add: Render_def Let_def)
  show "returned (Render p m ren vol s) = Some vol"
    by (subst R, subst d) (simp add: Let_def)
  have e: "events (final (Render p m ren vol s)) =
      events (final ?V) @ [StopTimer, VolumeMapperRenderEndEvent]"
    by (subst R, subst d) (simp add: Let_def)
  from e z zs show "MakeCurrent \<notin> set (new_events s (final (Render p m ren vol s)))"
    by (simp add: new_events_def StopTimer_def StartTimer_def VolumeMapperRenderStartEvent_def
        VolumeMapperRenderEndEvent_def)
qed

lemma Render_accepted:
  assumes "accepted m ren vol"
  shows "MakeCurrent \<in> set (new_events s (final (Render p m ren vol s)))"
proof -
  let ?s2 = "emit StartTimer (emit VolumeMapperRenderStartEvent s)"
  let ?V = "ValidateRender m ren vol ?s2"
  let ?G = "GPURender p m ren vol (final ?V)"
  from accepted_pointers [OF assms] obtain r v where rv: "ren = Some r" "vol = Some v" by blast
  have v: "validation m ren vol ?s2 ?V" by (rule ValidateRender_validation)
  with assms have "returned ?V = Some 1" by (simp add: validation_def)
  then have d: "?V = Done 1 (final ?V)" by (rule returned_Done_final)
  from v have "prefix (events ?s2) (events (final ?V))" by (simp add: validation_def)
  then have p: "prefix (events s) (events (final ?V))"
    by (metis append_prefixD emit_events)
  have R: "Render p m ren vol s = andThen ?V (\<lambda>valid s3.
     andThen (if valid \<noteq> 0 then GPURender p m ren vol s3 else Done vol s3) (\<lambda>vol' s4.
       let s5 = emit StopTimer s4;
           s6 = s5\<lparr>Implementation := (Implementation s5)\<lparr>ElapsedDrawTime := GetElapsedTime p\<rparr>\<rparr>;
           s7 = emit VolumeMapperRenderEndEvent s6
       in Done vol' s7))"
    by (simp add: Render_def Let_def)
  have "prefix (events (final ?V) @ [MakeCurrent]) (events (final ?V) @ [MakeCurrent])" by simp
  from GPURender_chain [OF this, of p m r v, THEN conjunct1] rv
  have g: "prefix (events (final ?V) @ [MakeCurrent]) (events (final ?G))" by simp
  have "prefix (events (final ?G)) (events (final (Render p m ren vol s)))"
    by (subst R, subst d, cases ?G) (simp_all add: Let_def)
  with g have "prefix (events (final ?V) @ [MakeCurrent]) (events (final (Render p m ren vol s)))"
    by (rule prefix_order.trans)
  with p show ?thesis by (rule in_new_events) simp
qed

subsection \<open>Scalar types the validation lets through\<close>

lemma LoadVolume_encoder_unsupported:
  assumes "NumberOfComponents a \<noteq> 4"
    and "DataType a \<in> {VTK_DOUBLE, VTK___INT64, VTK_LONG, VTK_LONG_LONG, VTK_UNSIGNED___INT64,
           VTK_UNSIGNED_LONG, VTK_UNSIGNED_LONG_LONG}"
  shows "LoadVolume_encoder p a s = Done LoadVolume_locals (emit (cerr msg_scalar_type) s)"
  using assms by (auto simp add: LoadVolume_encoder_def Let_def)

lemma LoadVolume_unsupported:
  assumes "LoadVolume p img a s = Done r s'" and "NumberOfComponents a \<noteq> 4"
    and "DataType a \<in> {VTK_DOUBLE, VTK___INT64, VTK_LONG, VTK_LONG_LONG, VTK_UNSIGNED___INT64,
           VTK_UNSIGNED_LONG, VTK_UNSIGNED_LONG_LONG}"
  shows "prefix (events s @ LoadVolume_texture @ [cerr msg_scalar_type]) (events s')"
proof -
  from assms(1) obtain e s3 where
    enc: "LoadVolume_encoder p a (emits LoadVolume_texture s) = Done e s3" and
    b: "prefix (events s3) (events s')"
    by (auto simp add: LoadVolume_def Let_def andThen_Done_iff Modified_def
        dest!: GL_CHECK_ERRORS_Done)
  from enc LoadVolume_encoder_unsupported [OF assms(2,3), of p "emits LoadVolume_texture s"]
  have "s3 = emit (cerr msg_scalar_type) (emits LoadVolume_texture s)" by simp
  with b show ?thesis by simp
qed

lemma GPURender_load_unsupported:
  assumes "GPURender_load p img a s = Done u t" and "IsDataDirty img s"
    and "NumberOfComponents a \<noteq> 4"
    and "DataType a \<in> {VTK_DOUBLE, VTK___INT64, VTK_LONG, VTK_LONG_LONG, VTK_UNSIGNED___INT64,
           VTK_UNSIGNED_LONG, VTK_UNSIGNED_LONG_LONG}"
  shows "prefix (events s @ LoadVolume_texture @ [cerr msg_scalar_type]) (events t)"
proof -
  from assms(1,2) obtain r s11 where
    l: "LoadVolume p img a (s\<lparr>Implementation := ComputeBounds img (Implementation s)\<rparr>) = Done r s11"
    and g: "UpdateVolumeGeometry p s11 = Done u t"
    by (auto simp add: GPURender_load_def Let_def andThen_Done_iff)
  from LoadVolume_unsupported [OF l assms(3,4)]
  have "prefix (events s @ LoadVolume_texture @ [cerr msg_scalar_type]) (events s11)" by simp
  moreover from extends_UpdateVolumeGeometry [of s11 p] g have "prefix (events s11) (events t)"
    by (simp add: extends_def)
  ultimately show ?thesis by (rule prefix_order.trans)
qed

lemma GPURender_unsupported:
  assumes run: "GPURender p m ren vol s = Done y t" and img: "Input m = Some img"
    and a: "Scalars img = Some a"
    and dirty: "VolumeBuildTime (Implementation s) < MTime img"
    and n: "NumberOfComponents a \<noteq> 4"
    and ty: "DataType a \<in> {VTK_DOUBLE, VTK___INT64, VTK_LONG, VTK_LONG_LONG, VTK_UNSIGNED___INT64,
           VTK_UNSIGNED_LONG, VTK_UNSIGNED_LONG_LONG}"
  shows "cerr msg_scalar_type \<in> set (new_events s t)"
proof -
  from GPURender_Done_pointers [OF run] obtain r v where rv: "ren = Some r" "vol = Some v"
    by blast
  let ?s4 = "emits GPURender_enable (emit Volume_Update (emit MakeCurrent s))"
  have "prefix (events s) (events s @ [MakeCurrent])" by simp
  from GPURender_chain [OF this, of p m r v, THEN conjunct2, rule_format, of y t] run rv img a
  obtain s5 s12 s16 v2 where
    init: "(if \<not> IsInitialized ?s4 then Initialize p ?s4 else Done () ?s4) = Done () s5"
    and load: "GPURender_load p img a
            (s5\<lparr>Implementation := (Implementation s5)
               \<lparr>CellFlag := ScalarsAssociation img, ScalarsRange := Range a\<rparr>\<rparr>) = Done () s12"
    and tab: "GPURender_tables p m (Some v) a s12 = Done (Some v2) s16"
    and t: "t = emits (GPURender_bind_and_draw m r v2 (GPURender_step m (Implementation s16)))
                (emits (GPURender_uniforms m (GPURender_step m (Implementation s16)))
                   (s16\<lparr>Implementation := GPURender_step m (Implementation s16)\<rparr>))"
    by auto
  let ?s9 = "s5\<lparr>Implementation := (Implementation s5)
               \<lparr>CellFlag := ScalarsAssociation img, ScalarsRange := Range a\<rparr>\<rparr>"
  from init have "VolumeBuildTime (Implementation s5) = VolumeBuildTime (Implementation s)"
    by (auto split: if_splits dest!: Initialize_Done)
  with dirty have d: "IsDataDirty img ?s9" by (simp add: IsDataDirty_def)
  have "extends ?s4 (if \<not> IsInitialized ?s4 then Initialize p ?s4 else Done () ?s4)"
  proof (cases "IsInitialized ?s4")
    case True
    then show ?thesis by (simp add: extends_def)
  next
    case False
    then show ?thesis by (simp only: if_True not_False_eq_True if_False extends_Initialize)
  qed
  with init have "prefix (events ?s4) (events s5)" by (simp only: extends_def final.simps)
  moreover have "events ?s4 = events s @ (MakeCurrent # Volume_Update # GPURender_enable)"
    by simp
  ultimately have "prefix (events s) (events s5)" by (simp add: append_prefixD)
  then have p5: "prefix (events s) (events ?s9)" by simp
  from GPURender_load_unsupported [OF load d n ty]
  have p12: "prefix (events ?s9 @ LoadVolume_texture @ [cerr msg_scalar_type]) (events s12)" .
  from extends_GPURender_tables [of s12 p m "Some v" a] tab
  have "prefix (events s12) (events s16)" by (simp add: extends_def)
  moreover from t have "prefix (events s16) (events t)" by simp
  ultimately have "prefix (events s12) (events t)" by (rule prefix_order.trans)
  with p12 have "prefix (events ?s9 @ LoadVolume_texture @ [cerr msg_scalar_type]) (events t)"
    by (rule prefix_order.trans)
  with p5 show ?thesis by (rule in_new_events) simp
qed

text \<open>A frame that the validation accepts: Render runs GPURender from the state it leaves.\<close>

lemma Render_accepted_frame:
  assumes "accepted m ren vol"
  shows "\<exists>s3. prefix (events s) (events s3) \<and>
           VolumeBuildTime (Implementation s3) = VolumeBuildTime (Implementation s) \<and>
           prefix (events (final (GPURender p m ren vol s3)))
             (events (final (Render p m ren vol s))) \<and>
           (returned (GPURender p m ren vol s3) \<noteq> None \<longrightarrow>
              returned (Render p m ren vol s) \<noteq> None)"
proof -
  let ?s2 = "emit StartTimer (emit VolumeMapperRenderStartEvent s)"
  let ?V = "ValidateRender m ren vol ?s2"
  let ?G = "GPURender p m ren vol (final ?V)"
  from accepted_pointers [OF assms] obtain img where img: "Input m = Some img" by blast
  have v: "validation m ren vol ?s2 ?V" by (rule ValidateRender_validation)
  with assms have "returned ?V = Some 1" by (simp add: validation_def)
  then have d: "?V = Done 1 (final ?V)" by (rule returned_Done_final)
  from v have "prefix (events ?s2) (events (final ?V))" by (simp add: validation_def)
  then have p: "prefix (events s) (events (final ?V))"
    by (metis append_prefixD emit_events)
  from v assms img
  have "Implementation (final ?V) = (Implementation ?s2)\<lparr>CellFlag := ScalarsAssociation img\<rparr>"
    by (simp add: validation_def)
  then have i: "VolumeBuildTime (Implementation (final ?V)) = VolumeBuildTime (Implementation s)"
    by simp
  have R: "Render p m ren vol s = andThen ?V (\<lambda>valid s3.
     andThen (if valid \<noteq> 0 then GPURender p m ren vol s3 else Done vol s3) (\<lambda>vol' s4.
       let s5 = emit StopTimer s4;
           s6 = s5\<lparr>Implementation := (Implementation s5)\<lparr>ElapsedDrawTime := GetElapsedTime p\<rparr>\<rparr>;
           s7 = emit VolumeMapperRenderEndEvent s6
       in Done vol' s7))"
    by (simp add: Render_def Let_def)
  have g: "prefix (events (final ?G)) (events (final (Render p m ren vol s)))"
    by (subst R, subst d, cases ?G) (simp_all add: Let_def)
  have "returned ?G \<noteq> None \<longrightarrow> returned (Render p m ren vol s) \<noteq> None"
    by (subst R, subst d, cases ?G) (simp_all add: Let_def)
  with p i g show ?thesis by blast
qed

lemma accepted_double_example:
  "accepted (mapper_of (image_of VTK_DOUBLE 1 0)) (Some camera) (Some (volume_with c f 1))"
  by (simp add: accepted_def mapper_of_def image_of_def scalars_of_def)

text \<open>
  Claim C1 at one component of type \<^verbatim>\<open>VTK_DOUBLE\<close>, a type outside the supported set:
  ValidateRender returns 1, the switch of LoadVolume takes the branch that writes the
  diagnostic \<^verbatim>\<open>Scalar type VTK_UNSIGNED_LONG_LONG not supported\<close> and leaves the texture
  formats at 0, and the frame Render completes on a fresh mapper has that diagnostic in
  it, after the render window was made current: the type is found unsupported in the
  middle of the render and not by the validation.
\<close>

theorem double_scalars_pass_validation:
  "\<not> supported_single (DataType (scalars_of VTK_DOUBLE 1)) \<and>
   NumberOfComponents (scalars_of VTK_DOUBLE 1) = 1 \<and>
   returned (ValidateRender (mapper_of (image_of VTK_DOUBLE 1 0)) (Some camera)
     (Some (volume_with [] [] 1)) boot) = Some 1 \<and>
   LoadVolume_encoder (driver True 128) (scalars_of VTK_DOUBLE 1) boot_range =
     Done LoadVolume_locals (emit (cerr msg_scalar_type) boot_range) \<and>
   returned (Render (driver True 128) (mapper_of (image_of VTK_DOUBLE 1 0)) (Some camera)
     (Some (volume_with [] [] 1)) boot) \<noteq> None \<and>
   MakeCurrent \<in> set (new_events boot (final (Render (driver True 128)
     (mapper_of (image_of VTK_DOUBLE 1 0)) (Some camera) (Some (volume_with [] [] 1)) boot))) \<and>
   cerr msg_scalar_type \<in> set (new_events boot (final (Render (driver True 128)
     (mapper_of (image_of VTK_DOUBLE 1 0)) (Some camera) (Some (volume_with [] [] 1)) boot)))"
proof -
  let ?m = "mapper_of (image_of VTK_DOUBLE 1 0)"
  let ?v = "volume_with [] [] 1"
  let ?p = "driver True 128"
  have n: "NDEBUG ?p" by (simp add: driver_def)
  have a: "accepted ?m (Some camera) (Some ?v)" by (rule accepted_double_example)
  have t: "\<not> supported_single (DataType (scalars_of VTK_DOUBLE 1))"
    "NumberOfComponents (scalars_of VTK_DOUBLE 1) = 1"
    by (simp_all add: supported_single_def scalars_of_def)
  from ValidateRender_validation [of ?m "Some camera" "Some ?v" boot] a
  have v: "returned (ValidateRender ?m (Some camera) (Some ?v) boot) = Some 1"
    by (simp add: validation_def)
  have e: "LoadVolume_encoder ?p (scalars_of VTK_DOUBLE 1) boot_range =
     Done LoadVolume_locals (emit (cerr msg_scalar_type) boot_range)"
    by (rule LoadVolume_encoder_unsupported) (simp_all add: scalars_of_def)
  from Render_accepted_frame [OF a, of boot ?p] obtain s3 where
    p3: "prefix (events boot) (events s3)"
    and b3: "VolumeBuildTime (Implementation s3) = VolumeBuildTime (Implementation boot)"
    and pg: "prefix (events (final (GPURender ?p ?m (Some camera) (Some ?v) s3)))
             (events (final (Render ?p ?m (Some camera) (Some ?v) boot)))"
    and rg: "returned (GPURender ?p ?m (Some camera) (Some ?v) s3) \<noteq> None \<longrightarrow>
              returned (Render ?p ?m (Some camera) (Some ?v) boot) \<noteq> None"
    by blast
  from GPURender_accepted_returns [OF n a, of s3]
  have r: "returned (GPURender ?p ?m (Some camera) (Some ?v) s3) \<noteq> None" .
  with rg have rr: "returned (Render ?p ?m (Some camera) (Some ?v) boot) \<noteq> None" by simp
  from r obtain y where "returned (GPURender ?p ?m (Some camera) (Some ?v) s3) = Some y" by blast
  then have d: "GPURender ?p ?m (Some camera) (Some ?v) s3 =
      Done y (final (GPURender ?p ?m (Some camera) (Some ?v) s3))"
    by (rule returned_Done_final)
  have "cerr msg_scalar_type \<in>
      set (new_events s3 (final (GPURender ?p ?m (Some camera) (Some ?v) s3)))"
    using d
    by (rule GPURender_unsupported [of _ _ _ _ _ _ _ "image_of VTK_DOUBLE 1 0"
          "scalars_of VTK_DOUBLE 1"])
      (simp_all add: mapper_of_def image_of_def scalars_of_def b3 boot_def constructed_def)
  moreover have "prefix (events s3) (events s3 @ [MakeCurrent])" by simp
  from GPURender_chain [OF this, of ?p ?m camera ?v, THEN conjunct1]
  obtain zs where z: "events (final (GPURender ?p ?m (Some camera) (Some ?v) s3)) =
      events s3 @ zs"
    by (auto simp add: prefix_def)
  ultimately have c: "cerr msg_scalar_type \<in> set zs" by (simp add: new_events_def)
  from z pg have "prefix (events s3 @ zs) (events (final (Render ?p ?m (Some camera) (Some ?v) boot)))"
    by simp
  with p3 have k: "cerr msg_scalar_type \<in>
      set (new_events boot (final (Render ?p ?m (Some camera) (Some ?v) boot)))"
    using c by (rule in_new_events)
  from Render_accepted [OF a, of boot ?p] t v e rr k show ?thesis by simp
qed

subsection \<open>What the validation rejects\<close>

text \<open>
  Claim C2. ValidateRender returns 0 when the renderer is null, the volume is null, the
  mapper has no input, the scalars are field data, the component count is neither 1 nor
  4 with non-independent components, 4-component data is not unsigned char, or the blend
  mode is additive with other than 1 component. It returns 0 or 1; when it returns 0 it
  has reported exactly one error and that report is the last thing it did (no check
  follows the one that failed); when it returns 1 it has reported none. Render makes the
  render window current, the first thing GPURender does with a renderer, exactly when
  its call of ValidateRender returned 1; when that call returned 0 Render returns with
  the frame skipped.
\<close>

theorem ValidateRender_gates_Render:
  "(ren = None \<or> vol = None \<or> Input m = None \<or>
    (\<exists>img a v. Input m = Some img \<and> Scalars img = Some a \<and> vol = Some v \<and>
       (ScalarsAssociation img = 2 \<or>
        NumberOfComponents a \<noteq> 1 \<and>
          \<not> (NumberOfComponents a = 4 \<and> IndependentComponents (Property v) = 0) \<or>
        NumberOfComponents a = 4 \<and> DataType a \<noteq> VTK_UNSIGNED_CHAR \<or>
        Mapper_BlendMode m = ADDITIVE_BLEND \<and> NumberOfComponents a \<noteq> 1))
    \<longrightarrow> returned (ValidateRender m ren vol s) = Some 0) \<and>
   (returned (ValidateRender m ren vol s) = Some 0 \<or>
    returned (ValidateRender m ren vol s) = Some 1) \<and>
   (returned (ValidateRender m ren vol s) = Some 0 \<longrightarrow>
      length (filter is_error (new_events s (final (ValidateRender m ren vol s)))) = 1 \<and>
      is_error (last (events (final (ValidateRender m ren vol s))))) \<and>
   (returned (ValidateRender m ren vol s) = Some 1 \<longrightarrow>
      filter is_error (new_events s (final (ValidateRender m ren vol s))) = []) \<and>
   (MakeCurrent \<in> set (new_events s (final (Render p m ren vol s))) \<longleftrightarrow>
      returned (ValidateRender m ren vol
        (emit StartTimer (emit VolumeMapperRenderStartEvent s))) = Some 1) \<and>
   (returned (ValidateRender m ren vol
        (emit StartTimer (emit VolumeMapperRenderStartEvent s))) = Some 0 \<longrightarrow>
      returned (Render p m ren vol s) = Some vol)"
proof -
  let ?s2 = "emit StartTimer (emit VolumeMapperRenderStartEvent s)"
  have v: "validation m ren vol s (ValidateRender m ren vol s)"
    by (rule ValidateRender_validation)
  have v2: "validation m ren vol ?s2 (ValidateRender m ren vol ?s2)"
    by (rule ValidateRender_validation)
  have r: "returned (ValidateRender m ren vol s) = Some (if accepted m ren vol then 1 else 0)"
    using v by (simp add: validation_def)
  have r2: "returned (ValidateRender m ren vol ?s2) = Some (if accepted m ren vol then 1 else 0)"
    using v2 by (simp add: validation_def)
  have 1: "ren = None \<or> vol = None \<or> Input m = None \<or>
    (\<exists>img a v. Input m = Some img \<and> Scalars img = Some a \<and> vol = Some v \<and>
       (ScalarsAssociation img = 2 \<or>
        NumberOfComponents a \<noteq> 1 \<and>
          \<not> (NumberOfComponents a = 4 \<and> IndependentComponents (Property v) = 0) \<or>
        NumberOfComponents a = 4 \<and> DataType a \<noteq> VTK_UNSIGNED_CHAR \<or>
        Mapper_BlendMode m = ADDITIVE_BLEND \<and> NumberOfComponents a \<noteq> 1))
    \<longrightarrow> returned (ValidateRender m ren vol s) = Some 0"
  proof
    assume "ren = None \<or> vol = None \<or> Input m = None \<or>
    (\<exists>img a v. Input m = Some img \<and> Scalars img = Some a \<and> vol = Some v \<and>
       (ScalarsAssociation img = 2 \<or>
        NumberOfComponents a \<noteq> 1 \<and>
          \<not> (NumberOfComponents a = 4 \<and> IndependentComponents (Property v) = 0) \<or>
        NumberOfComponents a = 4 \<and> DataType a \<noteq> VTK_UNSIGNED_CHAR \<or>
        Mapper_BlendMode m = ADDITIVE_BLEND \<and> NumberOfComponents a \<noteq> 1))"
    then have "\<not> accepted m ren vol"
      by (auto simp add: accepted_def split: option.splits)
    with r show "returned (ValidateRender m ren vol s) = Some 0" by simp
  qed
  have 2: "returned (ValidateRender m ren vol s) = Some 0 \<or>
    returned (ValidateRender m ren vol s) = Some 1"
    using r by simp
  have 3: "returned (ValidateRender m ren vol s) = Some 0 \<longrightarrow>
      length (filter is_error (new_events s (final (ValidateRender m ren vol s)))) = 1 \<and>
      is_error (last (events (final (ValidateRender m ren vol s))))"
    using v r by (cases "accepted m ren vol") (simp_all add: validation_def)
  have 4: "returned (ValidateRender m ren vol s) = Some 1 \<longrightarrow>
      filter is_error (new_events s (final (ValidateRender m ren vol s))) = []"
    using v r by (cases "accepted m ren vol") (simp_all add: validation_def)
  have 5: "MakeCurrent \<in> set (new_events s (final (Render p m ren vol s))) \<longleftrightarrow>
      returned (ValidateRender m ren vol ?s2) = Some 1"
    using r2 Render_accepted [of m ren vol s p] Render_rejected(2) [of m ren vol s p]
    by (cases "accepted m ren vol") simp_all
  have 6: "returned (ValidateRender m ren vol ?s2) = Some 0 \<longrightarrow>
      returned (Render p m ren vol s) = Some vol"
    using r2 Render_rejected(1) [of m ren vol p s]
    by (cases "accepted m ren vol") simp_all
  from 1 2 3 4 5 6 show ?thesis by blast
qed

theorem ValidateRender_gates_Render_witness:
  "returned (ValidateRender (mapper_of (image_of VTK_FLOAT 2 0)) (Some camera)
     (Some (volume_with [] [] 1)) boot) = Some 0 \<and>
   length (filter is_error (new_events boot (final (ValidateRender
     (mapper_of (image_of VTK_FLOAT 2 0)) (Some camera) (Some (volume_with [] [] 1)) boot)))) = 1 \<and>
   returned (ValidateRender (mapper_of (image_of VTK_FLOAT 2 0)) (Some camera)
     (Some (volume_with [] [] 1))
     (emit StartTimer (emit VolumeMapperRenderStartEvent boot))) = Some 0 \<and>
   MakeCurrent \<notin> set (new_events boot (final (Render (driver True 128)
     (mapper_of (image_of VTK_FLOAT 2 0)) (Some camera) (Some (volume_with [] [] 1)) boot))) \<and>
   returned (Render (driver True 128) (mapper_of (image_of VTK_FLOAT 2 0)) (Some camera)
     (Some (volume_with [] [] 1)) boot) = Some (Some (volume_with [] [] 1))"
proof -
  let ?m = "mapper_of (image_of VTK_FLOAT 2 0)"
  let ?v = "volume_with [] [] 1"
  have h: "\<exists>img a v. Input ?m = Some img \<and> Scalars img = Some a \<and> Some ?v = Some v \<and>
       (ScalarsAssociation img = 2 \<or>
        NumberOfComponents a \<noteq> 1 \<and>
          \<not> (NumberOfComponents a = 4 \<and> IndependentComponents (Property v) = 0) \<or>
        NumberOfComponents a = 4 \<and> DataType a \<noteq> VTK_UNSIGNED_CHAR \<or>
        Mapper_BlendMode ?m = ADDITIVE_BLEND \<and> NumberOfComponents a \<noteq> 1)"
    by (simp add: mapper_of_def image_of_def scalars_of_def)
  note T = ValidateRender_gates_Render [of "Some camera" "Some ?v" ?m _ "driver True 128"]
  from T [of boot] h
  have a: "returned (ValidateRender ?m (Some camera) (Some ?v) boot) = Some 0" by blast
  with T [of boot]
  have b: "length (filter is_error (new_events boot (final (ValidateRender ?m (Some camera)
     (Some ?v) boot)))) = 1"
    by blast
  from T [of "emit StartTimer (emit VolumeMapperRenderStartEvent boot)"] h
  have c: "returned (ValidateRender ?m (Some camera) (Some ?v)
     (emit StartTimer (emit VolumeMapperRenderStartEvent boot))) = Some 0"
    by blast
  with T [of boot]
  have d: "MakeCurrent \<notin> set (new_events boot (final (Render (driver True 128) ?m (Some camera)
      (Some ?v) boot)))"
    "returned (Render (driver True 128) ?m (Some camera) (Some ?v) boot) = Some (Some ?v)"
    by simp_all
  from a b c d show ?thesis by simp
qed

end
